theory Spec2Isabelle
  imports Main "HOL-Library.Word" "HOL-Library.Char_ord" "HOL-Library.List_Lexorder"
    "HOL-Library.AList" "HOL-Library.Sublist"
begin

unbundle bit_operations_syntax

section \<open>The standard-library functions used by \<^verbatim>\<open>main.go\<close>\<close>

subsection \<open>Package \<^verbatim>\<open>strings\<close>\<close>

text \<open>Go strings are byte sequences; \<^typ>\<open>string\<close> is a list of bytes.\<close>

definition HasPrefix :: "string \<Rightarrow> string \<Rightarrow> bool" where
  "HasPrefix s p = (take (length p) s = p)"

definition TrimPrefix :: "string \<Rightarrow> string \<Rightarrow> string" where
  "TrimPrefix s p = (if HasPrefix s p then drop (length p) s else s)"

definition HasSuffix :: "string \<Rightarrow> string \<Rightarrow> bool" where
  "HasSuffix s suf = (length suf \<le> length s \<and> drop (length s - length suf) s = suf)"

fun Contains :: "string \<Rightarrow> string \<Rightarrow> bool" where
  "Contains [] sub = (sub = [])"
| "Contains (c # cs) sub = (HasPrefix (c # cs) sub \<or> Contains cs sub)"

text \<open>
  \<^verbatim>\<open>strings.Split(s, sep)\<close> cuts at the leftmost, non-overlapping occurrences of
  \<open>sep\<close>. Every call in the program passes a non-empty literal separator.
\<close>

function Split :: "string \<Rightarrow> string \<Rightarrow> string list" where
  "Split [] sep = [[]]"
| "Split (c # cs) sep =
     (if sep \<noteq> [] \<and> HasPrefix (c # cs) sep
      then [] # Split (drop (length sep) (c # cs)) sep
      else (case Split cs sep of [] \<Rightarrow> [[c]] | y # ys \<Rightarrow> (c # y) # ys))"
  by pat_completeness auto
termination
  by (relation "measure (\<lambda>(s, sep). length s)") (auto simp: neq_Nil_conv)

function Count :: "string \<Rightarrow> string \<Rightarrow> nat" where
  "Count [] sep = 0"
| "Count (c # cs) sep =
     (if sep \<noteq> [] \<and> HasPrefix (c # cs) sep
      then Suc (Count (drop (length sep) (c # cs)) sep)
      else Count cs sep)"
  by pat_completeness auto
termination
  by (relation "measure (\<lambda>(s, sep). length s)") (auto simp: neq_Nil_conv)

fun Join :: "string list \<Rightarrow> string \<Rightarrow> string" where
  "Join [] sep = []"
| "Join [x] sep = x"
| "Join (x # y # ys) sep = x @ sep @ Join (y # ys) sep"

subsection \<open>Package \<^verbatim>\<open>slices\<close>\<close>

text \<open>\<^verbatim>\<open>slices.Index(s, v)\<close>: the first index of \<open>v\<close>, or \<open>-1\<close>.\<close>

fun Index :: "string list \<Rightarrow> string \<Rightarrow> int" where
  "Index [] v = - 1"
| "Index (x # xs) v =
     (if x = v then 0 else (let i = Index xs v in if i < 0 then - 1 else i + 1))"

subsection \<open>Package \<^verbatim>\<open>strconv\<close>\<close>

datatype errno = ENOENT | ENOTDIR | EISDIR | EEXIST | EPERM

text \<open>
  Go error values. A path is kept as its list of components (see below).
\<close>

datatype error =
    PathError string "string list" errno
  | LinkError string "string list" "string list" errno
  | NumError string string string
  | ErrorString string

definition isDigit :: "char \<Rightarrow> bool" where
  "isDigit c = (CHR ''0'' \<le> c \<and> c \<le> CHR ''9'')"

definition digitVal :: "char \<Rightarrow> int" where
  "digitVal c = int (of_char c) - 48"

definition decimal :: "string \<Rightarrow> int" where
  "decimal ds = foldl (\<lambda>acc c. 10 * acc + digitVal c) 0 ds"

text \<open>
  \<^verbatim>\<open>strconv.ParseInt(s, 10, 64)\<close>: an optional sign, then one or more decimal digits; a
  value outside the 64-bit range is an error. \<open>fn\<close> is the function name the error
  reports.
\<close>

definition parseDecimal :: "string \<Rightarrow> string \<Rightarrow> error + int" where
  "parseDecimal fn s =
     (let (neg, ds) = (case s of
                         c # cs \<Rightarrow> if c = CHR ''-'' then (True, cs)
                                   else if c = CHR ''+'' then (False, cs) else (False, s)
                       | [] \<Rightarrow> (False, s))
      in if ds = [] \<or> \<not> list_all isDigit ds then Inl (NumError fn s ''invalid syntax'')
         else (let v = (if neg then - decimal ds else decimal ds)
               in if v < - (2 ^ 63) \<or> 2 ^ 63 - 1 < v
                  then Inl (NumError fn s ''value out of range'')
                  else Inr v))"

definition Atoi :: "string \<Rightarrow> error + int" where
  "Atoi s = parseDecimal ''Atoi'' s"

definition ParseInt :: "string \<Rightarrow> error + int" where
  "ParseInt s = parseDecimal ''ParseInt'' s"

text \<open>The verb \<^verbatim>\<open>%d\<close> of \<^verbatim>\<open>fmt.Sprintf\<close>.\<close>

function digitsOf :: "nat \<Rightarrow> string" where
  "digitsOf n = (if n < 10 then [char_of (48 + n)] else digitsOf (n div 10) @ [char_of (48 + n mod 10)])"
  by pat_completeness auto
termination
  by (relation "measure id") auto

definition Itoa :: "int \<Rightarrow> string" where
  "Itoa i = (if i < 0 then CHR ''-'' # digitsOf (nat (- i)) else digitsOf (nat i))"

subsection \<open>Package \<^verbatim>\<open>path\<close>\<close>

text \<open>
  \<^verbatim>\<open>path.Join\<close> joins its non-empty arguments with a slash and cleans the result
  lexically: empty components and \<^verbatim>\<open>.\<close> vanish, \<^verbatim>\<open>..\<close> removes the component
  before it and vanishes at the root. The first argument of every call in the program
  is \<^verbatim>\<open>rootDir\<close>, which \<^verbatim>\<open>setupStorage\<close> obtains as
  \<^verbatim>\<open>path.Join(os.Getwd(), "data")\<close>: a rooted, clean path. A rooted clean path is
  represented by the list of its components, so \<^verbatim>\<open>/srv/data/lib\<close> is
  \<open>[''srv'', ''data'', ''lib'']\<close>, and \<open>path_Join root elems\<close> is
  \<^verbatim>\<open>path.Join(rootDir, elems...)\<close>.
\<close>

type_synonym path = "string list"

definition cleanStep :: "path \<Rightarrow> string \<Rightarrow> path" where
  "cleanStep p c =
     (if c = [] \<or> c = ''.'' then p
      else if c = ''..'' then butlast p
      else p @ [c])"

definition path_Join :: "path \<Rightarrow> string list \<Rightarrow> path" where
  "path_Join root elems = foldl cleanStep root (concat (map (\<lambda>e. Split e ''/'') elems))"

definition showPath :: "path \<Rightarrow> string" where
  "showPath p = CHR ''/'' # Join p ''/''"

subsection \<open>Package \<^verbatim>\<open>regexp\<close>\<close>

text \<open>
  The three patterns of the program are anchored at both ends, so
  \<^verbatim>\<open>regexp.MatchString\<close> decides whether the whole string belongs to the pattern. A
  pattern is kept in parsed form; a character class is a list of inclusive ranges, and
  \<open>AtomRep cs m n\<close> is the class \<open>cs\<close> repeated \<^verbatim>\<open>{m,n}\<close> times.
\<close>

datatype rexp =
    Zero
  | One
  | Atom "(char \<times> char) list"
  | AtomRep "(char \<times> char) list" nat nat
  | Plus rexp rexp
  | Times rexp rexp
  | Star rexp

definition inClass :: "(char \<times> char) list \<Rightarrow> char \<Rightarrow> bool" where
  "inClass cs c = list_ex (\<lambda>(lo, hi). lo \<le> c \<and> c \<le> hi) cs"

fun nullable :: "rexp \<Rightarrow> bool" where
  "nullable Zero = False"
| "nullable One = True"
| "nullable (Atom cs) = False"
| "nullable (AtomRep cs m n) = (m = 0)"
| "nullable (Plus r s) = (nullable r \<or> nullable s)"
| "nullable (Times r s) = (nullable r \<and> nullable s)"
| "nullable (Star r) = True"

fun plus :: "rexp \<Rightarrow> rexp \<Rightarrow> rexp" where
  "plus Zero s = s"
| "plus r Zero = r"
| "plus r s = Plus r s"

fun times :: "rexp \<Rightarrow> rexp \<Rightarrow> rexp" where
  "times Zero s = Zero"
| "times One s = s"
| "times r s = Times r s"

fun deriv :: "char \<Rightarrow> rexp \<Rightarrow> rexp" where
  "deriv c Zero = Zero"
| "deriv c One = Zero"
| "deriv c (Atom cs) = (if inClass cs c then One else Zero)"
| "deriv c (AtomRep cs m n) =
     (if 0 < n \<and> m \<le> n \<and> inClass cs c then AtomRep cs (m - 1) (n - 1) else Zero)"
| "deriv c (Plus r s) = plus (deriv c r) (deriv c s)"
| "deriv c (Times r s) =
     (if nullable r then plus (times (deriv c r) s) (deriv c s) else times (deriv c r) s)"
| "deriv c (Star r) = times (deriv c r) (Star r)"

fun derivs :: "rexp \<Rightarrow> string \<Rightarrow> rexp" where
  "derivs r [] = r"
| "derivs r (c # cs) = derivs (deriv c r) cs"

definition matches :: "rexp \<Rightarrow> string \<Rightarrow> bool" where
  "matches pattern name = nullable (derivs pattern name)"

definition lit :: "string \<Rightarrow> rexp" where
  "lit s = foldr (\<lambda>c r. Times (Atom [(c, c)]) r) s One"

definition some :: "rexp \<Rightarrow> rexp" where
  "some r = Times r (Star r)"

definition lowerAlnum :: "(char \<times> char) list" where
  "lowerAlnum = [(CHR ''a'', CHR ''z''), (CHR ''0'', CHR ''9'')]"

definition separators :: "(char \<times> char) list" where
  "separators = [(CHR ''.'', CHR ''.''), (CHR ''_'', CHR ''_''), (CHR ''-'', CHR ''-'')]"

definition nameComponent :: rexp where
  "nameComponent = Times (some (Atom lowerAlnum)) (Star (Times (Atom separators) (some (Atom lowerAlnum))))"

text \<open>\<^verbatim>\<open>^[a-z0-9]+([._-][a-z0-9]+)*(/[a-z0-9]+([._-][a-z0-9]+)*)*$\<close>\<close>

definition nameRegex :: rexp where
  "nameRegex = Times nameComponent (Star (Times (Atom [(CHR ''/'', CHR ''/'')]) nameComponent))"

text \<open>\<^verbatim>\<open>^[a-zA-Z0-9_][a-zA-Z0-9._-]{1,127}$\<close>\<close>

definition refHead :: "(char \<times> char) list" where
  "refHead = [(CHR ''a'', CHR ''z''), (CHR ''A'', CHR ''Z''), (CHR ''0'', CHR ''9''),
              (CHR ''_'', CHR ''_'')]"

definition refTail :: "(char \<times> char) list" where
  "refTail = [(CHR ''a'', CHR ''z''), (CHR ''A'', CHR ''Z''), (CHR ''0'', CHR ''9''),
              (CHR ''.'', CHR ''.''), (CHR ''_'', CHR ''_''), (CHR ''-'', CHR ''-'')]"

definition refRegex :: rexp where
  "refRegex = Times (Atom refHead) (AtomRep refTail 1 127)"

text \<open>\<^verbatim>\<open>^sha256:([a-f0-9]{64})$\<close>\<close>

definition hexClass :: "(char \<times> char) list" where
  "hexClass = [(CHR ''a'', CHR ''f''), (CHR ''0'', CHR ''9'')]"

definition digestRegex :: rexp where
  "digestRegex = Times (lit ''sha256:'') (AtomRep hexClass 64 64)"

subsection \<open>Package \<^verbatim>\<open>crypto/sha256\<close>\<close>

text \<open>
  \<^verbatim>\<open>sha256.Sum256\<close> is SHA-256 as FIPS 180-4 defines it: the message is padded to a
  multiple of 64 bytes, and each block of sixteen big-endian words is compressed into a
  state of eight 32-bit words.
\<close>

type_synonym w32 = "32 word"

type_synonym sha_state = "w32 \<times> w32 \<times> w32 \<times> w32 \<times> w32 \<times> w32 \<times> w32 \<times> w32"

definition rotr :: "nat \<Rightarrow> w32 \<Rightarrow> w32" where
  "rotr n x = (drop_bit n x) OR (push_bit (32 - n) x)"

definition K256 :: "w32 list" where
  "K256 = [
  1116352408, 1899447441, 3049323471, 3921009573, 961987163, 1508970993, 2453635748, 2870763221,
  3624381080, 310598401, 607225278, 1426881987, 1925078388, 2162078206, 2614888103, 3248222580,
  3835390401, 4022224774, 264347078, 604807628, 770255983, 1249150122, 1555081692, 1996064986,
  2554220882, 2821834349, 2952996808, 3210313671, 3336571891, 3584528711, 113926993, 338241895,
  666307205, 773529912, 1294757372, 1396182291, 1695183700, 1986661051, 2177026350, 2456956037,
  2730485921, 2820302411, 3259730800, 3345764771, 3516065817, 3600352804, 4094571909, 275423344,
  430227734, 506948616, 659060556, 883997877, 958139571, 1322822218, 1537002063, 1747873779,
  1955562222, 2024104815, 2227730452, 2361852424, 2428436474, 2756734187, 3204031479, 3329325298]"

definition shaInit :: sha_state where
  "shaInit = (1779033703, 3144134277, 1013904242, 2773480762,
              1359893119, 2600822924, 528734635, 1541459225)"

definition ssig0 :: "w32 \<Rightarrow> w32" where
  "ssig0 x = rotr 7 x XOR rotr 18 x XOR drop_bit 3 x"

definition ssig1 :: "w32 \<Rightarrow> w32" where
  "ssig1 x = rotr 17 x XOR rotr 19 x XOR drop_bit 10 x"

definition bsig0 :: "w32 \<Rightarrow> w32" where
  "bsig0 x = rotr 2 x XOR rotr 13 x XOR rotr 22 x"

definition bsig1 :: "w32 \<Rightarrow> w32" where
  "bsig1 x = rotr 6 x XOR rotr 11 x XOR rotr 25 x"

definition ch :: "w32 \<Rightarrow> w32 \<Rightarrow> w32 \<Rightarrow> w32" where
  "ch x y z = (x AND y) XOR (NOT x AND z)"

definition maj :: "w32 \<Rightarrow> w32 \<Rightarrow> w32 \<Rightarrow> w32" where
  "maj x y z = (x AND y) XOR (x AND z) XOR (y AND z)"

text \<open>The message schedule, newest word first.\<close>

fun schedule :: "nat \<Rightarrow> w32 list \<Rightarrow> w32 list" where
  "schedule 0 ws = ws"
| "schedule (Suc n) ws =
     schedule n ((ssig1 (ws ! 1) + ws ! 6 + ssig0 (ws ! 14) + ws ! 15) # ws)"

definition shaRound :: "sha_state \<Rightarrow> w32 \<times> w32 \<Rightarrow> sha_state" where
  "shaRound s kw = (case s of (a, b, c, d, e, f, g, h) \<Rightarrow>
     (let t1 = h + bsig1 e + ch e f g + fst kw + snd kw; t2 = bsig0 a + maj a b c
      in (t1 + t2, a, b, c, d + t1, e, f, g)))"

definition shaAdd :: "sha_state \<Rightarrow> sha_state \<Rightarrow> sha_state" where
  "shaAdd s t = (case s of (a, b, c, d, e, f, g, h) \<Rightarrow>
     (case t of (a', b', c', d', e', f', g', h') \<Rightarrow>
        (a + a', b + b', c + c', d + d', e + e', f + f', g + g', h + h')))"

definition compress :: "sha_state \<Rightarrow> w32 list \<Rightarrow> sha_state" where
  "compress hs blk = shaAdd hs (foldl shaRound hs (zip K256 (rev (schedule 48 (rev blk)))))"

definition shaPad :: "string \<Rightarrow> nat list" where
  "shaPad m = (let l = length m in
     map of_char m @ [128] @ replicate ((119 - l mod 64) mod 64) 0 @
     map (\<lambda>i. ((8 * l) div 2 ^ (8 * (7 - i))) mod 256) [0..<8])"

definition be32 :: "nat list \<Rightarrow> w32" where
  "be32 bs = of_nat (foldl (\<lambda>acc b. 256 * acc + b) 0 bs)"

fun chunks :: "nat \<Rightarrow> 'a list \<Rightarrow> 'a list list" where
  "chunks n [] = []"
| "chunks n (x # xs) =
     (if n = 0 then [x # xs] else take n (x # xs) # chunks n (drop n (x # xs)))"

definition Sum256 :: "string \<Rightarrow> sha_state" where
  "Sum256 b = foldl compress shaInit (map (\<lambda>blk. map be32 (chunks 4 blk)) (chunks 64 (shaPad b)))"

definition hexDigit :: "nat \<Rightarrow> char" where
  "hexDigit n = ''0123456789abcdef'' ! (n mod 16)"

definition hex32 :: "w32 \<Rightarrow> string" where
  "hex32 x = map (\<lambda>i. hexDigit (unat x div 16 ^ (7 - i))) [0..<8]"

text \<open>The verb \<^verbatim>\<open>%x\<close> on the 32 bytes of the sum: 64 lower-case hexadecimal digits.\<close>

definition hexOfSum :: "sha_state \<Rightarrow> string" where
  "hexOfSum s = (case s of (a, b, c, d, e, f, g, h) \<Rightarrow> concat (map hex32 [a, b, c, d, e, f, g, h]))"

text \<open>\<^verbatim>\<open>getDigest\<close>: \<^verbatim>\<open>fmt.Sprintf("sha256:%x", sha256.Sum256(b))\<close>.\<close>

definition getDigest :: "string \<Rightarrow> string" where
  "getDigest b = ''sha256:'' @ hexOfSum (Sum256 b)"

subsection \<open>Package \<^verbatim>\<open>encoding/json\<close>\<close>

text \<open>
  \<^verbatim>\<open>json.Marshal\<close> of a string: quoted, with the quote, the backslash, control
  characters and \<^verbatim>\<open><\<close>, \<^verbatim>\<open>>\<close>, \<^verbatim>\<open>&\<close> escaped. Bytes from 128 on are passed
  through (well-formed UTF-8 other than U+2028 and U+2029).
\<close>

definition jsonEscape :: "char \<Rightarrow> string" where
  "jsonEscape c =
     (let n = (of_char c :: nat) in
      if c = CHR 0x22 then [CHR 0x5C, CHR 0x22]
      else if c = CHR 0x5C then [CHR 0x5C, CHR 0x5C]
      else if c = CHR 0x0A then [CHR 0x5C, CHR ''n'']
      else if c = CHR 0x0D then [CHR 0x5C, CHR ''r'']
      else if c = CHR 0x09 then [CHR 0x5C, CHR ''t'']
      else if n < 32 \<or> c = CHR ''<'' \<or> c = CHR ''>'' \<or> c = CHR ''&''
      then [CHR 0x5C] @ ''u00'' @ [hexDigit (n div 16), hexDigit n]
      else [c])"

definition jsonString :: "string \<Rightarrow> string" where
  "jsonString s = [CHR 0x22] @ concat (map jsonEscape s) @ [CHR 0x22]"

text \<open>
  \<^verbatim>\<open>type TagList struct { Name string `json:"name"`; TagList []string `json:"tags"` }\<close>
\<close>

definition marshalTagList :: "string \<Rightarrow> string list \<Rightarrow> string" where
  "marshalTagList name tags =
     ''{'' @ jsonString ''name'' @ '':'' @ jsonString name @ '','' @ jsonString ''tags'' @ '':[''
       @ Join (map jsonString tags) '','' @ '']}''"

text \<open>\<^verbatim>\<open>ErrorResponse\<close> with its single \<^verbatim>\<open>ErrorDetail\<close>.\<close>

definition marshalErrorResponse :: "string \<Rightarrow> string \<Rightarrow> string \<Rightarrow> string" where
  "marshalErrorResponse code message detail =
     ''{'' @ jsonString ''errors'' @ '':[{'' @ jsonString ''code'' @ '':'' @ jsonString code
       @ '','' @ jsonString ''message'' @ '':'' @ jsonString message
       @ '','' @ jsonString ''detail'' @ '':'' @ jsonString detail @ ''}]}''"

subsection \<open>Package \<^verbatim>\<open>os\<close>: the file system\<close>

text \<open>
  The store maps the rooted path of every existing file and directory to its node; the
  root directory \<open>[]\<close> always exists. Every operation below checks the parent of a
  path it creates, so that the parent of an entry is a directory entry. A hard link
  (\<^verbatim>\<open>os.Link\<close>, used by the cross-repository mount only) is a second entry holding
  the same bytes; the sharing of later writes between the two names is not represented.
\<close>

datatype node = Dir | File string

type_synonym filesystem = "(path \<times> node) list"

definition lookup :: "filesystem \<Rightarrow> path \<Rightarrow> node option" where
  "lookup fs p = (if p = [] then Some Dir else map_of fs p)"

definition isFile :: "filesystem \<Rightarrow> path \<Rightarrow> bool" where
  "isFile fs p = (case lookup fs p of Some (File c) \<Rightarrow> True | _ \<Rightarrow> False)"

text \<open>The error of a path that does not resolve: a file on the way is \<^verbatim>\<open>ENOTDIR\<close>.\<close>

definition notFound :: "filesystem \<Rightarrow> path \<Rightarrow> errno" where
  "notFound fs p = (if list_ex (isFile fs) (prefixes p) then ENOTDIR else ENOENT)"

definition os_Open :: "filesystem \<Rightarrow> path \<Rightarrow> error + node" where
  "os_Open fs p =
     (case lookup fs p of None \<Rightarrow> Inl (PathError ''open'' p (notFound fs p)) | Some n \<Rightarrow> Inr n)"

definition os_Stat :: "filesystem \<Rightarrow> path \<Rightarrow> error + node" where
  "os_Stat fs p =
     (case lookup fs p of None \<Rightarrow> Inl (PathError ''stat'' p (notFound fs p)) | Some n \<Rightarrow> Inr n)"

text \<open>\<^verbatim>\<open>os.IsNotExist(err)\<close> and \<^verbatim>\<open>errors.Is(err, os.ErrNotExist)\<close>.\<close>

fun IsNotExist :: "error \<Rightarrow> bool" where
  "IsNotExist (PathError opn p e) = (e = ENOENT)"
| "IsNotExist (LinkError opn p q e) = (e = ENOENT)"
| "IsNotExist _ = False"

text \<open>\<^verbatim>\<open>os.OpenFile(p, os.O_RDWR|os.O_CREATE, 0644)\<close>; the handle is the path.\<close>

definition os_OpenFile :: "filesystem \<Rightarrow> path \<Rightarrow> error + filesystem" where
  "os_OpenFile fs p =
     (case lookup fs p of
        Some Dir \<Rightarrow> Inl (PathError ''open'' p EISDIR)
      | Some (File c) \<Rightarrow> Inr fs
      | None \<Rightarrow>
          (if lookup fs (butlast p) = Some Dir then Inr (AList.update p (File []) fs)
           else Inl (PathError ''open'' p (notFound fs p))))"

text \<open>\<^verbatim>\<open>os.Truncate(p, 0)\<close>\<close>

definition os_Truncate :: "filesystem \<Rightarrow> path \<Rightarrow> error + filesystem" where
  "os_Truncate fs p =
     (case lookup fs p of
        Some Dir \<Rightarrow> Inl (PathError ''truncate'' p EISDIR)
      | Some (File c) \<Rightarrow> Inr (AList.update p (File []) fs)
      | None \<Rightarrow> Inl (PathError ''truncate'' p (notFound fs p)))"

definition fileContent :: "filesystem \<Rightarrow> path \<Rightarrow> string" where
  "fileContent fs p = (case lookup fs p of Some (File c) \<Rightarrow> c | _ \<Rightarrow> [])"

text \<open>
  \<^verbatim>\<open>f.Read(buf)\<close> on a handle at offset 0 with \<open>len(buf) = n\<close>: the bytes read and
  whether the error is \<^verbatim>\<open>io.EOF\<close>. A read into an empty buffer returns \<open>(0, nil)\<close>.
\<close>

definition file_Read :: "filesystem \<Rightarrow> path \<Rightarrow> nat \<Rightarrow> string \<times> bool" where
  "file_Read fs p n =
     (let got = take n (fileContent fs p) in (got, n \<noteq> 0 \<and> got = []))"

text \<open>
  \<^verbatim>\<open>f.ReadAt(buf, off)\<close> with \<open>len(buf) = n\<close>: it reads until the buffer is full
  and reports \<^verbatim>\<open>io.EOF\<close> when the file ends before that.
\<close>

definition file_ReadAt :: "filesystem \<Rightarrow> path \<Rightarrow> nat \<Rightarrow> nat \<Rightarrow> string \<times> bool" where
  "file_ReadAt fs p n off =
     (let got = take n (drop off (fileContent fs p)) in (got, length got < n))"

text \<open>\<^verbatim>\<open>f.WriteAt(b, off)\<close>; a gap before \<open>off\<close> reads as zero bytes.\<close>

definition file_WriteAt :: "filesystem \<Rightarrow> path \<Rightarrow> nat \<Rightarrow> string \<Rightarrow> filesystem" where
  "file_WriteAt fs p off b =
     (if b = [] then fs
      else (let c = fileContent fs p
            in AList.update p
                 (File (take off c @ replicate (off - length c) (CHR 0x00) @ b
                        @ drop (off + length b) c)) fs))"

definition os_MkdirAll :: "filesystem \<Rightarrow> path \<Rightarrow> error + filesystem" where
  "os_MkdirAll fs p =
     (if list_ex (isFile fs) (prefixes p) then Inl (PathError ''mkdir'' p ENOTDIR)
      else Inr (foldl (\<lambda>fs' q. if lookup fs' q = None then AList.update q Dir fs' else fs')
                  fs (prefixes p)))"

text \<open>
  \<^verbatim>\<open>os.RemoveAll(p)\<close> removes \<open>p\<close> and everything below it; a missing path is no
  error, and no other failure (permissions, I/O) is represented, so the branches of the
  handler that answer such a failure are not reached.
\<close>

definition os_RemoveAll :: "filesystem \<Rightarrow> path \<Rightarrow> filesystem" where
  "os_RemoveAll fs p = filter (\<lambda>(q, n). \<not> prefix p q) fs"

text \<open>
  \<^verbatim>\<open>os.Rename(old, new)\<close>. Its only caller discards the error, so a failed rename is the
  unchanged store.
\<close>

definition os_Rename :: "filesystem \<Rightarrow> path \<Rightarrow> path \<Rightarrow> filesystem" where
  "os_Rename fs old new =
     (case lookup fs old of
        None \<Rightarrow> fs
      | Some (File c) \<Rightarrow>
          (if old = new \<or> lookup fs new = Some Dir \<or> lookup fs (butlast new) \<noteq> Some Dir then fs
           else AList.update new (File c) (AList.delete old fs))
      | Some Dir \<Rightarrow>
          (if old = [] \<or> prefix old new \<or> isFile fs new \<or> lookup fs (butlast new) \<noteq> Some Dir
              \<or> list_ex (\<lambda>(q, n). strict_prefix new q) fs
           then fs
           else map (\<lambda>(q, n). if prefix old q then (new @ drop (length old) q, n) else (q, n))
                  (AList.delete new fs)))"

text \<open>\<^verbatim>\<open>os.ReadDir(p)\<close>: the entries of the directory, sorted by name, each with \<^verbatim>\<open>IsDir()\<close>.\<close>

definition dirNames :: "filesystem \<Rightarrow> path \<Rightarrow> string list" where
  "dirNames fs p = sort (remdups (map (\<lambda>(q, n). last q) (filter (\<lambda>(q, n). q \<noteq> [] \<and> butlast q = p) fs)))"

definition os_ReadDir :: "filesystem \<Rightarrow> path \<Rightarrow> error + (string \<times> bool) list" where
  "os_ReadDir fs p =
     (case lookup fs p of
        None \<Rightarrow> Inl (PathError ''open'' p (notFound fs p))
      | Some (File c) \<Rightarrow> Inl (PathError ''readdirent'' p ENOTDIR)
      | Some Dir \<Rightarrow> Inr (map (\<lambda>n. (n, lookup fs (p @ [n]) = Some Dir)) (dirNames fs p)))"

definition os_Link :: "filesystem \<Rightarrow> path \<Rightarrow> path \<Rightarrow> error + filesystem" where
  "os_Link fs old new =
     (case lookup fs old of
        None \<Rightarrow> Inl (LinkError ''link'' old new (notFound fs old))
      | Some Dir \<Rightarrow> Inl (LinkError ''link'' old new EPERM)
      | Some (File c) \<Rightarrow>
          (if lookup fs new \<noteq> None then Inl (LinkError ''link'' old new EEXIST)
           else if lookup fs (butlast new) \<noteq> Some Dir
           then Inl (LinkError ''link'' old new (notFound fs new))
           else Inr (AList.update new (File c) fs)))"

text \<open>The text of \<^verbatim>\<open>err.Error()\<close>.\<close>

definition errnoText :: "errno \<Rightarrow> string" where
  "errnoText e = (case e of
       ENOENT \<Rightarrow> ''no such file or directory''
     | ENOTDIR \<Rightarrow> ''not a directory''
     | EISDIR \<Rightarrow> ''is a directory''
     | EEXIST \<Rightarrow> ''file exists''
     | EPERM \<Rightarrow> ''operation not permitted'')"

fun Error :: "error \<Rightarrow> string" where
  "Error (PathError opn p e) = opn @ '' '' @ showPath p @ '': '' @ errnoText e"
| "Error (LinkError opn p q e) = opn @ '' '' @ showPath p @ '' '' @ showPath q @ '': '' @ errnoText e"
| "Error (NumError fn s msg) =
     ''strconv.'' @ fn @ '': parsing '' @ [CHR 0x22] @ s @ [CHR 0x22] @ '': '' @ msg"
| "Error (ErrorString s) = s"

subsection \<open>Package \<^verbatim>\<open>net/http\<close>: request and response writer\<close>

text \<open>
  The handler's use of its \<^verbatim>\<open>http.ResponseWriter\<close> is recorded call by call, in
  order. \<open>Form\<close> holds what \<^verbatim>\<open>r.FormValue\<close> finds (the parsed query string);
  \<open>Body\<close> holds the bytes \<^verbatim>\<open>r.Body\<close> delivers.
\<close>

datatype call = SetHeader string string | WriteHeader int | Write string

record request =
  Method :: string
  RequestURI :: string
  Header :: "(string \<times> string) list"
  Form :: "(string \<times> string) list"
  Body :: string

definition Header_Get :: "request \<Rightarrow> string \<Rightarrow> string" where
  "Header_Get r k = (case map_of (Header r) k of None \<Rightarrow> [] | Some v \<Rightarrow> v)"

definition FormValue :: "request \<Rightarrow> string \<Rightarrow> string" where
  "FormValue r k = (case map_of (Form r) k of None \<Rightarrow> [] | Some v \<Rightarrow> v)"

text \<open>
  What a request is served with: the storage root, the values
  \<^verbatim>\<open>uuid.Generate().String()\<close> returns at its two call sites, the capacity the Go
  runtime gives a slice grown by that many \<^verbatim>\<open>append\<close>s, the size
  \<^verbatim>\<open>os.Stat\<close> reports for a directory, and the largest number of bytes the Go
  runtime accepts to allocate at once (\<^verbatim>\<open>maxAlloc\<close> of \<^verbatim>\<open>runtime/malloc.go\<close>, which
  depends on the platform).
\<close>

record env =
  rootDir :: path
  uuid4a :: string
  uuid11 :: string
  sliceCap :: "nat \<Rightarrow> nat"
  dirSize :: int
  maxAlloc :: int

text \<open>
  \<^verbatim>\<open>make([]byte, n)\<close> panics in \<^verbatim>\<open>runtime.makeslice\<close> when \<open>n\<close> is negative or
  beyond \<^verbatim>\<open>maxAlloc\<close>, and gives \<open>n\<close> zero bytes otherwise. A host that runs out of
  memory below that limit is not represented.
\<close>

definition makePanics :: "env \<Rightarrow> int \<Rightarrow> bool" where
  "makePanics e n = (n < 0 \<or> maxAlloc e < n)"

record state =
  store :: filesystem
  out :: "call list"

text \<open>
  How control leaves a block of the handler: it falls through to the next
  \<^verbatim>\<open>if\<close>, it returns, or it panics.
\<close>

datatype flow = Fallthrough | Returned | Panicked

definition emit :: "call list \<Rightarrow> state \<Rightarrow> state" where
  "emit cs st = st\<lparr>out := out st @ cs\<rparr>"

text \<open>
  \<^verbatim>\<open>http.Error(w, msg, code)\<close>, as in the Go release that \<^verbatim>\<open>go.mod\<close> names: two
  headers, \<^verbatim>\<open>WriteHeader\<close>, and the message with a newline.
\<close>

definition http_Error :: "string \<Rightarrow> int \<Rightarrow> state \<Rightarrow> state" where
  "http_Error msg code st =
     emit [SetHeader ''Content-Type'' ''text/plain; charset=utf-8'',
           SetHeader ''X-Content-Type-Options'' ''nosniff'',
           WriteHeader code,
           Write (msg @ [CHR 0x0A])] st"

text \<open>\<^verbatim>\<open>bytes.Buffer.WriteTo(w)\<close> writes a non-empty buffer with one call.\<close>

definition WriteTo :: "string \<Rightarrow> state \<Rightarrow> state" where
  "WriteTo content st = (if content = [] then st else emit [Write content] st)"

text \<open>
  What \<^verbatim>\<open>net/http\<close> sends for a sequence of calls: the first \<^verbatim>\<open>WriteHeader\<close>
  fixes the status, a \<^verbatim>\<open>Write\<close> before any \<^verbatim>\<open>WriteHeader\<close> implies status
  200, later \<^verbatim>\<open>WriteHeader\<close> calls are ignored, and the body is what the
  \<^verbatim>\<open>Write\<close> calls carry.
\<close>

fun statusOf :: "call list \<Rightarrow> int option" where
  "statusOf [] = None"
| "statusOf (WriteHeader n # cs) = Some n"
| "statusOf (Write b # cs) = Some 200"
| "statusOf (SetHeader k v # cs) = statusOf cs"

fun bodyOf :: "call list \<Rightarrow> string" where
  "bodyOf [] = []"
| "bodyOf (Write b # cs) = b @ bodyOf cs"
| "bodyOf (c # cs) = bodyOf cs"

fun statusCalls :: "call list \<Rightarrow> int list" where
  "statusCalls [] = []"
| "statusCalls (WriteHeader n # cs) = n # statusCalls cs"
| "statusCalls (c # cs) = statusCalls cs"

text \<open>The value of a header when the status line is sent.\<close>

fun headerOf :: "string \<Rightarrow> call list \<Rightarrow> string option \<Rightarrow> string option" where
  "headerOf k [] cur = cur"
| "headerOf k (SetHeader k' v # cs) cur = headerOf k cs (if k' = k then Some v else cur)"
| "headerOf k (c # cs) cur = cur"

section \<open>\<^verbatim>\<open>main.go\<close>\<close>

subsection \<open>Helper functions\<close>

definition writeServerError :: "error \<Rightarrow> state \<Rightarrow> state" where
  "writeServerError err st = http_Error (''Unexpected error encountered: '' @ Error err) 500 st"

definition writeOCIError :: "string \<Rightarrow> string \<Rightarrow> int \<Rightarrow> state \<Rightarrow> state" where
  "writeOCIError code message statusCode st =
     http_Error (marshalErrorResponse code message ''{}'') statusCode st"

fun nameParts :: "string list \<Rightarrow> string list" where
  "nameParts [] = []"
| "nameParts (p # ps) =
     (if p = ''blobs'' \<or> p = ''manifests'' \<or> p = ''tags'' \<or> p = ''referrers'' then []
      else p # nameParts ps)"

definition parseName :: "string \<Rightarrow> error + string" where
  "parseName url =
     (let s = TrimPrefix url ''/v2/''; paths = Count s ''/''
      in if paths \<le> 1
         then Inl (ErrorString (''URL does not match any valid OCI endpoint: '' @ url))
         else if paths = 2 then Inr (hd (Split s ''/''))
         else Inr (Join (nameParts (Split s ''/'')) ''/''))"

definition fileExists :: "filesystem \<Rightarrow> path \<Rightarrow> error + bool" where
  "fileExists fs p =
     (case os_Open fs p of
        Inl err \<Rightarrow>
          (if IsNotExist err then Inr False
           else Inl (ErrorString (''Unexpected error while checking existence of '' @ showPath p
                                   @ '': '' @ Error err)))
      | Inr f \<Rightarrow> Inr True)"

text \<open>Reading a whole file with \<^verbatim>\<open>bytes.Buffer.ReadFrom\<close>; a directory cannot be read.\<close>

definition readAll :: "path \<Rightarrow> node \<Rightarrow> error + string" where
  "readAll p f = (case f of Dir \<Rightarrow> Inl (PathError ''read'' p EISDIR) | File c \<Rightarrow> Inr c)"

definition readFile :: "filesystem \<Rightarrow> path \<Rightarrow> error + string" where
  "readFile fs p = (case os_Open fs p of Inl err \<Rightarrow> Inl err | Inr f \<Rightarrow> readAll p f)"

text \<open>
  \<^verbatim>\<open>findManifest\<close>; the result \<^verbatim>\<open>""\<close> of the source is \<open>None\<close> here.
\<close>

fun findManifestLoop ::
  "filesystem \<Rightarrow> path \<Rightarrow> string \<Rightarrow> string \<Rightarrow> (string \<times> bool) list \<Rightarrow> error + path option" where
  "findManifestLoop fs root name digest [] = Inr None"
| "findManifestLoop fs root name digest ((deName, deIsDir) # files) =
     (if deName = ''_blobs'' then findManifestLoop fs root name digest files
      else if deIsDir then
        (let manifestPath = path_Join root [name, deName, ''manifest.json'']
         in case os_Open fs manifestPath of
              Inl fE \<Rightarrow> Inl fE
            | Inr f \<Rightarrow>
                (case readAll manifestPath f of
                   Inl err \<Rightarrow> Inl err
                 | Inr buf \<Rightarrow>
                     if getDigest buf = digest then Inr (Some manifestPath)
                     else findManifestLoop fs root name digest files))
      else findManifestLoop fs root name digest files)"

definition findManifest :: "filesystem \<Rightarrow> path \<Rightarrow> string \<Rightarrow> string \<Rightarrow> error + path option" where
  "findManifest fs root name digest =
     (case os_ReadDir fs (path_Join root [name]) of
        Inl err \<Rightarrow> Inl err
      | Inr files \<Rightarrow> findManifestLoop fs root name digest files)"

definition validateBlob :: "filesystem \<Rightarrow> path \<Rightarrow> string \<Rightarrow> bool" where
  "validateBlob fs filePath digest =
     (case readFile fs filePath of Inl e \<Rightarrow> False | Inr b \<Rightarrow> getDigest b = digest)"

text \<open>
  The copy loop of \<^verbatim>\<open>writeBodyToFile\<close>: each round reads up to 1024 bytes of the
  body and writes them at the handle's offset, until the body is exhausted.
\<close>

function copyBody :: "path \<Rightarrow> string \<Rightarrow> nat \<Rightarrow> filesystem \<Rightarrow> filesystem" where
  "copyBody f rest off fs =
     (let buf = take 1024 rest; fs' = file_WriteAt fs f off buf; rest' = drop 1024 rest
      in if rest' = [] then fs' else copyBody f rest' (off + length buf) fs')"
  by pat_completeness auto
termination
  by (relation "measure (\<lambda>(f, rest, off, fs). length rest)") auto

definition writeBodyToFile :: "path \<Rightarrow> request \<Rightarrow> state \<Rightarrow> state" where
  "writeBodyToFile destFile r st =
     (if (case os_Stat (store st) destFile of Inl statE \<Rightarrow> IsNotExist statE | Inr fi \<Rightarrow> False)
      then (case os_OpenFile (store st) destFile of
              Inl err \<Rightarrow> writeServerError err st
            | Inr fs1 \<Rightarrow> st\<lparr>store := copyBody destFile (Body r) 0 fs1\<rparr>)
      else (case os_OpenFile (store st) destFile of
              Inl err \<Rightarrow> writeServerError err st
            | Inr fs1 \<Rightarrow>
                (case os_Truncate fs1 destFile of
                   Inl err \<Rightarrow> writeServerError err (st\<lparr>store := fs1\<rparr>)
                 | Inr fs2 \<Rightarrow> st\<lparr>store := copyBody destFile (Body r) 0 fs2\<rparr>)))"

definition writeBodyToFileWithLocation ::
  "path \<Rightarrow> request \<Rightarrow> string \<Rightarrow> string \<Rightarrow> state \<Rightarrow> state" where
  "writeBodyToFileWithLocation destFile r name digest st =
     (let st1 = writeBodyToFile destFile r st;
          st2 = (if \<not> validateBlob (store st1) destFile digest
                 then http_Error ''blob did not match length or digest'' 400 st1 else st1)
      in emit [SetHeader ''Location'' (''/v2/'' @ name @ ''/blobs/'' @ digest), WriteHeader 201] st2)"

definition createFile :: "path \<Rightarrow> state \<Rightarrow> state" where
  "createFile destFile st =
     (case os_OpenFile (store st) destFile of
        Inl err \<Rightarrow> writeServerError err st
      | Inr fs1 \<Rightarrow>
          (case os_Truncate fs1 destFile of
             Inl err \<Rightarrow> writeServerError err (st\<lparr>store := fs1\<rparr>)
           | Inr fs2 \<Rightarrow> st\<lparr>store := fs2\<rparr>))"

text \<open>
  A \<^verbatim>\<open>[]string\<close>: its elements and its capacity. The backing array beyond the
  length holds empty strings.
\<close>

record strslice =
  items :: "string list"
  capacity :: nat

definition getTags :: "env \<Rightarrow> filesystem \<Rightarrow> path \<Rightarrow> error + strslice" where
  "getTags e fs p =
     (case os_ReadDir fs p of
        Inl err \<Rightarrow> Inl err
      | Inr files \<Rightarrow>
          (let tags = filter (\<lambda>n. n \<noteq> ''_blobs'') (map fst files)
           in Inr \<lparr>items = tags, capacity = sliceCap e (length tags)\<rparr>))"

text \<open>\<^verbatim>\<open>tags[i:]\<close> and \<^verbatim>\<open>tags[:i]\<close>; \<open>None\<close> is the run-time panic.\<close>

definition sliceFrom :: "strslice \<Rightarrow> int \<Rightarrow> strslice option" where
  "sliceFrom t i =
     (if i < 0 \<or> int (length (items t)) < i then None
      else Some \<lparr>items = drop (nat i) (items t), capacity = capacity t - nat i\<rparr>)"

definition sliceTo :: "strslice \<Rightarrow> int \<Rightarrow> strslice option" where
  "sliceTo t i =
     (if i < 0 \<or> int (capacity t) < i then None
      else Some \<lparr>items = take (nat i) (items t @ replicate (capacity t - length (items t)) []),
                 capacity = capacity t\<rparr>)"

subsection \<open>The handler of \<^verbatim>\<open>/v2/\<close>, block by block\<close>

text \<open>
  Each \<^verbatim>\<open>if\<close> block of the handler is one function of the repository name, the
  endpoint and the state; a block whose condition is false falls through.
\<close>

type_synonym block = "env \<Rightarrow> request \<Rightarrow> string \<Rightarrow> string \<Rightarrow> state \<Rightarrow> flow \<times> state"

definition end2 :: block where
  "end2 e r name endpoint st =
     (if (Method r = ''HEAD'' \<or> Method r = ''GET'') \<and> Contains endpoint ''/blobs/sha256:'' then
        (let requestDigest = last (Split endpoint ''/'') in
         if \<not> matches digestRegex requestDigest
         then (Returned, writeOCIError ''BLOB_UNKNOWN'' ''blob unknown to registry'' 404 st)
         else
           (let blobPath = path_Join (rootDir e) [name, ''_blobs'', requestDigest] in
            case fileExists (store st) blobPath of
              Inl err \<Rightarrow> (Returned, writeServerError err st)
            | Inr b \<Rightarrow>
                if b then
                  (let st1 = emit [SetHeader ''Docker-Content-Digest'' requestDigest] st in
                   if Method r = ''GET'' then
                     (case readFile (store st1) blobPath of
                        Inl e' \<Rightarrow> (Returned, writeServerError e' st1)
                      | Inr content \<Rightarrow> (Fallthrough, emit [WriteHeader 200] (WriteTo content st1)))
                   else (Fallthrough, emit [WriteHeader 200] st1))
                else (Fallthrough, emit [WriteHeader 404] st)))
      else (Fallthrough, st))"

definition end3 :: block where
  "end3 e r name endpoint st =
     (if (Method r = ''HEAD'' \<or> Method r = ''GET'') \<and> Contains endpoint ''/manifests/'' then
        (let lastPart = last (Split endpoint ''/'');
             isRef = matches refRegex lastPart;
             isDigest = matches digestRegex lastPart
         in if \<not> (isRef \<or> isDigest)
            then (Returned, writeOCIError ''MANIFEST_INVALID'' ''manifest invalid'' 404 st)
            else
              (case (if isRef then Inr (Some (path_Join (rootDir e) [name, lastPart, ''manifest.json'']))
                     else findManifest (store st) (rootDir e) name lastPart) of
                 Inl err \<Rightarrow> (Returned, emit [WriteHeader 404] st)
               | Inr None \<Rightarrow>
                   (Returned, writeOCIError ''MANIFEST_UNKNOWN'' ''manifest unknown to registry'' 404 st)
               | Inr (Some manifestPath) \<Rightarrow>
                   (case fileExists (store st) manifestPath of
                      Inl err \<Rightarrow> (Returned, writeServerError err st)
                    | Inr b \<Rightarrow>
                        if b then
                          (if Method r = ''GET'' then
                             (case readFile (store st) manifestPath of
                                Inl e' \<Rightarrow> (Returned, writeServerError e' st)
                              | Inr content \<Rightarrow>
                                  (Fallthrough, emit [WriteHeader 200] (WriteTo content st)))
                           else (Fallthrough, emit [WriteHeader 200] st))
                        else (Fallthrough, emit [WriteHeader 404] st))))
      else (Fallthrough, st))"

definition end4a :: block where
  "end4a e r name endpoint st =
     (if Method r = ''POST'' \<and> HasSuffix endpoint ''/blobs/uploads/'' then
        (Fallthrough, emit [SetHeader ''Location'' (RequestURI r @ uuid4a e), WriteHeader 202] st)
      else (Fallthrough, st))"

definition end4b :: block where
  "end4b e r name endpoint st =
     (if Method r = ''POST'' \<and> Contains endpoint ''/blobs/uploads/'' \<and> FormValue r ''mount'' = [] then
        (let digest = FormValue r ''digest'' in
         if digest = [] then (Returned, http_Error ''Digest missing'' 400 st)
         else
           (let destFile = path_Join (rootDir e) [name, ''_blobs'', digest]
            in (Returned, writeBodyToFileWithLocation destFile r name digest st)))
      else (Fallthrough, st))"

text \<open>
  The chunk of a \<^verbatim>\<open>PATCH\<close>: one \<^verbatim>\<open>r.Body.Read\<close> into a zeroed buffer of
  \<open>Content-Length\<close> bytes, taken to deliver all the bytes the body holds.
\<close>

definition readChunk :: "request \<Rightarrow> nat \<Rightarrow> string" where
  "readChunk r n = take n (Body r) @ replicate (n - length (Body r)) (CHR 0x00)"

definition end5 :: block where
  "end5 e r name endpoint st0 =
     (if Method r = ''PATCH'' \<and> Contains endpoint ''/blobs/uploads/'' then
        (let location = last (Split endpoint ''/'');
             st = emit [SetHeader ''Location'' (RequestURI r)] st0
         in case Atoi (Header_Get r ''Content-Length'') of
              Inl err \<Rightarrow> (Returned, writeServerError err st)
            | Inr i \<Rightarrow>
                (let cr = Header_Get r ''Content-Range'';
                     destFile = path_Join (rootDir e) [name, ''_blobs'', location]
                 in if cr = [] then (Fallthrough, emit [WriteHeader 202] (createFile destFile st))
                    else
                      (case Split cr ''-'' of
                         start # end' # elems \<Rightarrow>
                           (case ParseInt start of
                              Inl err \<Rightarrow> (Returned, writeServerError err st)
                            | Inr start64 \<Rightarrow>
                                (case Atoi start of
                                   Inl err \<Rightarrow> (Returned, writeServerError err st)
                                 | Inr s \<Rightarrow>
                                     (case os_OpenFile (store st) destFile of
                                        Inl err \<Rightarrow> (Returned, writeServerError err st)
                                      | Inr fs1 \<Rightarrow>
                                          (let st1 = st\<lparr>store := fs1\<rparr> in
                                           if makePanics e s then (Panicked, st1)
                                           else
                                             (case file_Read fs1 destFile (nat s) of
                                                (buf, eof) \<Rightarrow>
                                                  if eof then (Returned, emit [WriteHeader 416] st1)
                                                  else if int (length buf) \<noteq> s
                                                  then (Returned, emit [WriteHeader 416] st1)
                                                  else if makePanics e i then (Panicked, st1)
                                                  else
                                                    (case file_ReadAt fs1 destFile (nat i) (nat start64) of
                                                       (buf2, eof2) \<Rightarrow>
                                                         if \<not> eof2 \<and> int (length buf2) = i
                                                         then (Returned, emit [WriteHeader 416] st1)
                                                         else
                                                           (let fs2 = file_WriteAt fs1 destFile (nat start64)
                                                                        (readChunk r (nat i))
                                                            in (Fallthrough,
                                                                emit [SetHeader ''Range'' (Itoa 0 @ ''-'' @ Itoa (i - 1)),
                                                                      WriteHeader 202]
                                                                  (st1\<lparr>store := fs2\<rparr>)))))))))
                       | _ \<Rightarrow> (Panicked, st))))
      else (Fallthrough, st0))"

definition end6 :: block where
  "end6 e r name endpoint st =
     (if Method r = ''PUT'' \<and> Contains endpoint ''/blobs/uploads/'' then
        (let location = hd (Split (last (Split endpoint ''/'')) ''?'');
             b = (case fileExists (store st) (path_Join (rootDir e) [name, ''_blobs'', location]) of
                    Inl err \<Rightarrow> False | Inr b' \<Rightarrow> b')
         in if b then
              (let digest = FormValue r ''digest'';
                   fs1 = os_Rename (store st) (path_Join (rootDir e) [name, ''_blobs'', location])
                           (path_Join (rootDir e) [name, ''_blobs'', digest])
               in (Returned,
                   emit [SetHeader ''Location'' (''/v2/'' @ name @ ''/blobs/'' @ digest), WriteHeader 201]
                     (st\<lparr>store := fs1\<rparr>)))
            else
              (case os_MkdirAll (store st) (path_Join (rootDir e) [name, ''_blobs'']) of
                 Inl err \<Rightarrow> (Returned, writeServerError err st)
               | Inr fs1 \<Rightarrow>
                   (let digest = FormValue r ''digest'';
                        destFile = path_Join (rootDir e) [name, ''_blobs'', digest]
                    in (Fallthrough,
                        writeBodyToFileWithLocation destFile r name digest (st\<lparr>store := fs1\<rparr>)))))
      else (Fallthrough, st))"

definition end7 :: block where
  "end7 e r name endpoint st =
     (if Method r = ''PUT'' \<and> Contains endpoint ''/manifests/'' then
        (let requestRef = last (Split endpoint ''/manifests/'') in
         case os_MkdirAll (store st) (path_Join (rootDir e) [name, requestRef]) of
           Inl err \<Rightarrow> (Returned, writeServerError err st)
         | Inr fs1 \<Rightarrow>
             (let destFile = path_Join (rootDir e) [name, requestRef, ''manifest.json''];
                  st1 = writeBodyToFile destFile r (st\<lparr>store := fs1\<rparr>)
              in case os_Open (store st1) destFile of
                   Inl err \<Rightarrow> (Returned, writeServerError err st1)
                 | Inr f \<Rightarrow>
                     (case readAll destFile f of
                        Inl err \<Rightarrow> (Returned, writeServerError err st1)
                      | Inr buf \<Rightarrow>
                          (Fallthrough,
                           emit [SetHeader ''Location'' (''/v2/'' @ name @ ''/manifests/'' @ getDigest buf),
                                 WriteHeader 201] st1))))
      else (Fallthrough, st))"

text \<open>
  The body of the two tag-list blocks after the tags are chosen: \<^verbatim>\<open>json.Marshal\<close>
  and \<^verbatim>\<open>w.Write\<close>.
\<close>

definition writeTagList :: "string \<Rightarrow> strslice \<Rightarrow> state \<Rightarrow> flow \<times> state" where
  "writeTagList name tags st = (Returned, emit [Write (marshalTagList name (items tags))] st)"

definition end8a :: block where
  "end8a e r name endpoint st =
     (if Method r = ''GET'' \<and> HasSuffix endpoint ''/tags/list'' \<and> FormValue r ''last'' = [] then
        (case os_ReadDir (store st) (path_Join (rootDir e) [name]) of
           Inl err \<Rightarrow>
             (Returned, writeOCIError ''NAME_UNKNOWN'' ''repository name not known to registry'' 404 st)
         | Inr files \<Rightarrow>
             (case getTags e (store st) (path_Join (rootDir e) [name]) of
                Inl err \<Rightarrow> (Returned, writeServerError err st)
              | Inr tags \<Rightarrow> writeTagList name tags st))
      else (Fallthrough, st))"

definition end8b :: block where
  "end8b e r name endpoint st =
     (if Method r = ''GET'' \<and> HasSuffix endpoint ''/tags/list'' then
        (let n = FormValue r ''n''; last' = FormValue r ''last'' in
         case os_ReadDir (store st) (path_Join (rootDir e) [name]) of
           Inl err \<Rightarrow>
             (Returned, writeOCIError ''NAME_UNKNOWN'' ''repository name not known to registry'' 404 st)
         | Inr files \<Rightarrow>
             (case getTags e (store st) (path_Join (rootDir e) [name]) of
                Inl err \<Rightarrow> (Returned, writeServerError err st)
              | Inr tags0 \<Rightarrow>
                  (let tags1 = tags0\<lparr>items := sort (items tags0)\<rparr> in
                   case (if last' \<noteq> [] then sliceFrom tags1 (Index (items tags1) last') else Some tags1) of
                     None \<Rightarrow> (Panicked, st)
                   | Some tags2 \<Rightarrow>
                       (case (if n \<noteq> [] then
                                (case Atoi n of Inl err \<Rightarrow> None | Inr i \<Rightarrow> sliceTo tags2 i)
                              else Some tags2) of
                          None \<Rightarrow> (Panicked, st)
                        | Some tags3 \<Rightarrow> writeTagList name tags3 st))))
      else (Fallthrough, st))"

definition end9 :: block where
  "end9 e r name endpoint st =
     (if Method r = ''DELETE'' \<and> Contains endpoint ''/manifests/'' then
        (let lastPart = last (Split endpoint ''/'');
             isRef = matches refRegex lastPart;
             isDigest = matches digestRegex lastPart
         in if \<not> (isRef \<or> isDigest)
            then (Returned, writeOCIError ''MANIFEST_INVALID'' ''manifest invalid'' 404 st)
            else
              (let manifestPath = path_Join (rootDir e) [name, lastPart];
                   fs1 = os_RemoveAll (store st) manifestPath
               in (Returned, emit [WriteHeader 202] (st\<lparr>store := fs1\<rparr>))))
      else (Fallthrough, st))"

definition end10 :: block where
  "end10 e r name endpoint st =
     (if Method r = ''DELETE'' \<and> Contains endpoint ''/blobs/'' then
        (let requestDigest = last (Split endpoint ''/'') in
         if \<not> matches digestRegex requestDigest
         then (Returned, writeOCIError ''BLOB_UNKNOWN'' ''blob unknown to registry'' 404 st)
         else
           (let blobPath = path_Join (rootDir e) [name, ''_blobs'', requestDigest] in
            case fileExists (store st) blobPath of
              Inl err \<Rightarrow> (Returned, writeServerError err st)
            | Inr b \<Rightarrow>
                if b then
                  (Returned, emit [WriteHeader 202] (st\<lparr>store := os_RemoveAll (store st) blobPath\<rparr>))
                else (Returned, emit [WriteHeader 404] st)))
      else (Fallthrough, st))"

definition end11 :: block where
  "end11 e r name endpoint st =
     (if Method r = ''POST'' \<and> Contains endpoint ''/blobs/uploads/'' then
        (let m = FormValue r ''mount'';
             f = FormValue r ''from'';
             old = path_Join (rootDir e) [f, ''_blobs'', m]
         in case fileExists (store st) old of
              Inl err \<Rightarrow> (Returned, writeServerError err st)
            | Inr b \<Rightarrow>
                if \<not> b \<or> f = [] then
                  (Returned,
                   emit [SetHeader ''Location'' (''/v2/'' @ name @ ''/blobs/uploads/'' @ uuid11 e),
                         WriteHeader 202] st)
                else
                  (let new = path_Join (rootDir e) [name, ''_blobs'', m];
                       fs1 = (case os_MkdirAll (store st) (path_Join (rootDir e) [name, ''_blobs'']) of
                                Inl err \<Rightarrow> store st | Inr fs' \<Rightarrow> fs')
                   in case os_Link fs1 old new of
                        Inl err \<Rightarrow> (Returned, writeServerError err (st\<lparr>store := fs1\<rparr>))
                      | Inr fs2 \<Rightarrow>
                          (Returned,
                           emit [SetHeader ''Location'' (''/v2/'' @ name @ ''/blobs/'' @ m), WriteHeader 201]
                             (st\<lparr>store := fs2\<rparr>))))
      else (Fallthrough, st))"

definition end12a :: block where
  "end12a e r name endpoint st =
     (if Method r = ''GET'' \<and> Contains endpoint ''/referrers/'' \<and> FormValue r ''artifactType'' = []
      then (Returned, emit [WriteHeader 404] st)
      else (Fallthrough, st))"

definition end12b :: block where
  "end12b e r name endpoint st =
     (if Method r = ''GET'' \<and> Contains endpoint ''/referrers/'' \<and> FormValue r ''artifactType'' = []
      then (Returned, emit [WriteHeader 404] st)
      else (Fallthrough, st))"

definition end13 :: block where
  "end13 e r name endpoint st =
     (if Method r = ''GET'' \<and> Contains endpoint ''/blobs/uploads/'' then
        (let location = last (Split endpoint ''/'');
             destFile = path_Join (rootDir e) [name, ''_blobs'', location]
         in case os_Stat (store st) destFile of
              Inl err \<Rightarrow> (Returned, writeServerError err st)
            | Inr fileInfo \<Rightarrow>
                (let l = (case fileInfo of Dir \<Rightarrow> dirSize e | File c \<Rightarrow> int (length c)) - 1
                 in (Returned,
                     emit [SetHeader ''Location'' (RequestURI r),
                           SetHeader ''Range'' (Itoa 0 @ ''-'' @ Itoa l),
                           WriteHeader 204] st)))
      else (Fallthrough, st))"

text \<open>The blocks run in the order of the source until one returns or panics.\<close>

fun chain :: "(state \<Rightarrow> flow \<times> state) list \<Rightarrow> state \<Rightarrow> flow \<times> state" where
  "chain [] st = (Fallthrough, st)"
| "chain (b # bs) st = (case b st of (Fallthrough, st') \<Rightarrow> chain bs st' | res \<Rightarrow> res)"

definition blocks :: "block list" where
  "blocks = [end2, end3, end4a, end4b, end5, end6, end7, end8a, end8b, end9, end10, end11,
             end12a, end12b, end13]"

definition handler :: "env \<Rightarrow> request \<Rightarrow> filesystem \<Rightarrow> flow \<times> state" where
  "handler e r fs0 =
     (let st = \<lparr>store = fs0, out = []\<rparr> in
      if Method r = ''GET'' \<and> RequestURI r = ''/v2/'' then (Returned, emit [WriteHeader 200] st)
      else
        (case parseName (RequestURI r) of
           Inl err \<Rightarrow> (Returned, writeServerError err st)
         | Inr name \<Rightarrow>
             if \<not> matches nameRegex name
             then (Returned, writeOCIError ''NAME_INVALID'' ''invalid repository name'' 400 st)
             else
               (let endpoint = TrimPrefix (RequestURI r) (''/v2/'' @ name)
                in chain (map (\<lambda>b. b e r name endpoint) blocks) st)))"

text \<open>The store and the calls on the response writer a request leaves behind.\<close>

definition serve :: "env \<Rightarrow> request \<Rightarrow> filesystem \<Rightarrow> filesystem" where
  "serve e r fs0 = store (snd (handler e r fs0))"

definition response :: "env \<Rightarrow> request \<Rightarrow> filesystem \<Rightarrow> call list" where
  "response e r fs0 = out (snd (handler e r fs0))"

subsection \<open>Example environment, requests and stores\<close>

text \<open>
  The capacity of a slice after \<open>n\<close> appends to an empty slice, for the doubling the
  Go runtime applies to small slices.
\<close>

fun appendCap :: "nat \<Rightarrow> nat" where
  "appendCap 0 = 0"
| "appendCap (Suc n) =
     (if Suc n \<le> appendCap n then appendCap n
      else if appendCap n = 0 then 1 else 2 * appendCap n)"

text \<open>An environment on 64-bit Linux, where \<^verbatim>\<open>maxAlloc\<close> is \<open>2 ^ 48\<close>.\<close>

definition exampleEnv :: env where
  "exampleEnv = \<lparr>rootDir = [''srv'', ''data''],
                  uuid4a = ''2f0c7a52-6f0e-4a0b-9a3e-0d1c5a8b7e11'',
                  uuid11 = ''9b1d4c1e-3c55-4f7a-8d2b-6e0f4a9c2d37'',
                  sliceCap = appendCap,
                  dirSize = 4096,
                  maxAlloc = 281474976710656\<rparr>"

definition mkRequest ::
  "string \<Rightarrow> string \<Rightarrow> (string \<times> string) list \<Rightarrow> (string \<times> string) list \<Rightarrow> string \<Rightarrow> request" where
  "mkRequest m uri hdr frm bdy = \<lparr>Method = m, RequestURI = uri, Header = hdr, Form = frm, Body = bdy\<rparr>"

text \<open>The repository \<^verbatim>\<open>lib/app\<close> with an empty \<^verbatim>\<open>_blobs\<close> directory.\<close>

definition repoStore :: filesystem where
  "repoStore =
     [([''srv''], Dir), ([''srv'', ''data''], Dir), ([''srv'', ''data'', ''lib''], Dir),
      ([''srv'', ''data'', ''lib'', ''app''], Dir),
      ([''srv'', ''data'', ''lib'', ''app'', ''_blobs''], Dir)]"

text \<open>The same repository with the tags \<^verbatim>\<open>a\<close>, \<^verbatim>\<open>b\<close>, \<^verbatim>\<open>c\<close>, \<^verbatim>\<open>d\<close>.\<close>

definition tagsStore :: filesystem where
  "tagsStore = repoStore @
     concat (map (\<lambda>t. [([''srv'', ''data'', ''lib'', ''app'', t], Dir),
                         ([''srv'', ''data'', ''lib'', ''app'', t, ''manifest.json''], File ''{}'')])
                 [''a'', ''b'', ''c'', ''d''])"

text \<open>The repository with an upload session \<^verbatim>\<open>sess\<close> that holds the bytes \<open>c\<close>.\<close>

definition sessionStore :: "string \<Rightarrow> filesystem" where
  "sessionStore c = repoStore @ [([''srv'', ''data'', ''lib'', ''app'', ''_blobs'', ''sess''], File c)]"

text \<open>The repository with one blob in \<^verbatim>\<open>_blobs\<close>, named \<open>d\<close> and holding \<open>c\<close>.\<close>

definition blobStore :: "string \<Rightarrow> string \<Rightarrow> filesystem" where
  "blobStore d c = repoStore @ [([''srv'', ''data'', ''lib'', ''app'', ''_blobs'', d], File c)]"

definition zeroDigest :: string where
  "zeroDigest = ''sha256:0000000000000000000000000000000000000000000000000000000000000000''"

definition onesDigest :: string where
  "onesDigest = ''sha256:1111111111111111111111111111111111111111111111111111111111111111''"

text \<open>
  The repository \<^verbatim>\<open>lib/app\<close> next to the repository \<^verbatim>\<open>lib/app/aaa\<close>, which holds
  the tag \<^verbatim>\<open>v1\<close>: the store after \<^verbatim>\<open>PUT /v2/lib/app/aaa/manifests/v1\<close>.
\<close>

definition nestedStore :: filesystem where
  "nestedStore = repoStore @
     [([''srv'', ''data'', ''lib'', ''app'', ''aaa''], Dir),
      ([''srv'', ''data'', ''lib'', ''app'', ''aaa'', ''v1''], Dir),
      ([''srv'', ''data'', ''lib'', ''app'', ''aaa'', ''v1'', ''manifest.json''], File ''{}'')]"

text \<open>
  Every directory of the repository other than \<^verbatim>\<open>_blobs\<close> and the tag \<open>ref\<close> holds a
  file \<^verbatim>\<open>manifest.json\<close>, and none of these files has the digest of \<open>M\<close> with
  other bytes than \<open>M\<close>.
\<close>

definition otherTagsReadable :: "filesystem \<Rightarrow> path \<Rightarrow> string \<Rightarrow> string \<Rightarrow> string \<Rightarrow> bool" where
  "otherTagsReadable fs root name ref M =
     list_all (\<lambda>t. t = ''_blobs'' \<or> t = ref \<or> lookup fs (path_Join root [name] @ [t]) \<noteq> Some Dir
                 \<or> (case lookup fs (path_Join root [name, t, ''manifest.json'']) of
                      Some (File c) \<Rightarrow> (getDigest c = getDigest M \<longrightarrow> c = M)
                    | _ \<Rightarrow> False))
       (dirNames fs (path_Join root [name]))"

text \<open>The words of the specification for the name: the components before the first keyword.\<close>

definition endpointKeywords :: "string set" where
  "endpointKeywords = {''blobs'', ''manifests'', ''tags'', ''referrers''}"

definition componentsBeforeKeyword :: "string \<Rightarrow> string" where
  "componentsBeforeKeyword s = Join (takeWhile (\<lambda>p. p \<notin> endpointKeywords) (Split s ''/'')) ''/''"

section \<open>Properties\<close>

lemmas block_defs = end2_def end3_def end4a_def end4b_def end5_def end6_def end7_def end8a_def
  end8b_def end9_def end10_def end11_def end12a_def end12b_def end13_def

lemmas io_defs = emit_def http_Error_def writeServerError_def writeOCIError_def WriteTo_def
  Header_Get_def FormValue_def

lemmas str_defs = HasSuffix_def TrimPrefix_def

lemmas name_defs = matches_def nameRegex_def nameComponent_def some_def lowerAlnum_def
  separators_def inClass_def

lemmas regex_defs = refRegex_def refHead_def refTail_def digestRegex_def hexClass_def lit_def

lemmas os_defs = lookup_def isFile_def notFound_def os_Open_def os_Stat_def os_OpenFile_def
  os_Truncate_def fileContent_def file_Read_def file_ReadAt_def file_WriteAt_def os_MkdirAll_def
  os_RemoveAll_def os_Rename_def dirNames_def os_ReadDir_def os_Link_def
  path_Join_def cleanStep_def

lemmas helper_defs = fileExists_def readAll_def readFile_def findManifest_def validateBlob_def
  writeBodyToFile_def writeBodyToFileWithLocation_def createFile_def getTags_def sliceFrom_def
  sliceTo_def writeTagList_def readChunk_def Atoi_def ParseInt_def parseDecimal_def isDigit_def
  decimal_def digitVal_def Itoa_def makePanics_def

lemmas eval_defs = handler_def mkRequest_def blocks_def block_defs io_defs str_defs parseName_def
  name_defs regex_defs os_defs helper_defs Let_def exampleEnv_def repoStore_def tagsStore_def
  sessionStore_def blobStore_def

lemmas sym_defs = handler_def mkRequest_def blocks_def block_defs io_defs TrimPrefix_def
  parseName_def os_defs helper_defs Let_def exampleEnv_def repoStore_def tagsStore_def
  sessionStore_def blobStore_def nestedStore_def getDigest_def

subsection \<open>Splitting and joining at a single character\<close>

lemma HasPrefix_Nil [simp]: "HasPrefix s [] = True"
  by (simp add: HasPrefix_def)

lemma HasPrefix_Nil_left [simp]: "HasPrefix [] p = (p = [])"
  by (auto simp: HasPrefix_def)

lemma HasPrefix_Cons [simp]: "HasPrefix (x # xs) (y # ys) = (x = y \<and> HasPrefix xs ys)"
  by (auto simp: HasPrefix_def)

lemma HasPrefix_append [simp]: "HasPrefix (p @ s) p"
  by (simp add: HasPrefix_def)

lemma Split_not_Nil [simp]: "Split s sep \<noteq> []"
  by (induction s sep rule: Split.induct) (auto split: list.splits)

lemma Split_single_Cons:
  "Split (x # xs) [c] = (if x = c then [] # Split xs [c] else (x # hd (Split xs [c])) # tl (Split xs [c]))"
  by (cases "Split xs [c]") auto

lemma Split_single_notin: "c \<notin> set s \<Longrightarrow> Split s [c] = [s]"
  by (induction s) (auto simp: Split_single_Cons)

lemma Split_single_append: "Split (a @ c # b) [c] = Split a [c] @ Split b [c]"
proof (induction a)
  case Nil
  show ?case by simp
next
  case (Cons x a)
  have ne: "Split a [c] \<noteq> []" by simp
  show ?case
    using Cons ne by (cases "Split a [c]") (auto simp: Split_single_Cons)
qed

lemma Count_single_Cons: "Count (x # xs) [c] = (if x = c then Suc (Count xs [c]) else Count xs [c])"
  by simp

lemma Count_single_append: "Count (a @ b) [c] = Count a [c] + Count b [c]"
  by (induction a) (auto simp: Count_single_Cons)

lemma Count_single_notin: "c \<notin> set s \<Longrightarrow> Count s [c] = 0"
  by (induction s) (auto simp: Count_single_Cons)

lemma Count_single_pos: "c \<in> set s \<Longrightarrow> 0 < Count s [c]"
  by (induction s) (auto simp: Count_single_Cons)

lemma length_Split_single: "length (Split s [c]) = Suc (Count s [c])"
proof (induction s)
  case Nil
  show ?case by simp
next
  case (Cons x s)
  have "Split s [c] \<noteq> []" by simp
  then obtain y ys where "Split s [c] = y # ys" by (cases "Split s [c]") auto
  with Cons show ?case by (auto simp: Split_single_Cons Count_single_Cons)
qed

lemma Join_Cons_Cons: "Join ((x # y) # ys) sep = x # Join (y # ys) sep"
  by (cases ys) auto

lemma Join_Split_single: "Join (Split s [c]) [c] = s"
proof (induction s)
  case Nil
  show ?case by simp
next
  case (Cons x s)
  obtain y ys where yys: "Split s [c] = y # ys" by (cases "Split s [c]") auto
  with Cons have "Join (y # ys) [c] = s" by simp
  with yys show ?case by (auto simp: Split_single_Cons Join_Cons_Cons)
qed


subsection \<open>Digests\<close>

lemma hexDigit_in: "hexDigit n \<in> set ''0123456789abcdef''"
proof -
  have "n mod 16 < length ''0123456789abcdef''" by simp
  then have "''0123456789abcdef'' ! (n mod 16) \<in> set ''0123456789abcdef''"
    by (rule nth_mem)
  then show ?thesis by (simp only: hexDigit_def)
qed

lemma length_hex32 [simp]: "length (hex32 x) = 8"
  by (simp add: hex32_def)

lemma set_hex32: "set (hex32 x) \<subseteq> set ''0123456789abcdef''"
  using hexDigit_in by (auto simp: hex32_def simp del: set_simps)

lemma length_hexOfSum [simp]: "length (hexOfSum s) = 64"
  by (simp add: hexOfSum_def split: prod.splits)

lemma set_hexOfSum: "set (hexOfSum s) \<subseteq> set ''0123456789abcdef''"
  using set_hex32 by (auto simp: hexOfSum_def simp del: set_simps split: prod.splits)

lemma hexOfSum_notin [simp]: "c \<notin> set ''0123456789abcdef'' \<Longrightarrow> c \<notin> set (hexOfSum s)"
  using set_hexOfSum by blast

lemma inClass_hex: "c \<in> set ''0123456789abcdef'' \<Longrightarrow> inClass hexClass c"
  by (auto simp: inClass_def hexClass_def)

lemma hexOfSum_inClass [simp]: "list_all (inClass hexClass) (hexOfSum s)"
proof -
  have "\<And>c. c \<in> set (hexOfSum s) \<Longrightarrow> inClass hexClass c"
    using set_hexOfSum[of s] inClass_hex by blast
  then show ?thesis by (simp add: list_all_iff)
qed

subsection \<open>Matching\<close>

lemma derivs_Zero [simp]: "derivs Zero s = Zero"
  by (induction s) auto

lemma derivs_append: "derivs r (s @ t) = derivs (derivs r s) t"
  by (induction s arbitrary: r) auto

lemma nullable_derivs_AtomRep:
  "m \<le> n \<Longrightarrow> nullable (derivs (AtomRep cs m n) s) = (m \<le> length s \<and> length s \<le> n \<and> list_all (inClass cs) s)"
proof (induction s arbitrary: m n)
  case Nil
  then show ?case by simp
next
  case (Cons c s)
  show ?case
  proof (cases "0 < n \<and> inClass cs c")
    case True
    with Cons.prems have "m - 1 \<le> n - 1" by simp
    from Cons.IH[OF this] True Cons.prems show ?thesis by auto
  next
    case False
    then show ?thesis by auto
  qed
qed

lemma matches_getDigest [simp]: "matches digestRegex (getDigest b)"
proof -
  have "derivs digestRegex ''sha256:'' = AtomRep hexClass 64 64"
    by (simp add: digestRegex_def lit_def inClass_def)
  then show ?thesis
    by (simp add: matches_def getDigest_def derivs_append nullable_derivs_AtomRep)
qed

lemma not_ref_getDigest [simp]: "\<not> matches refRegex (getDigest b)"
proof -
  have "derivs refRegex ''sha256:'' = Zero"
    by (simp add: refRegex_def refHead_def refTail_def inClass_def)
  then show ?thesis
    by (simp add: matches_def getDigest_def derivs_append)
qed

lemma matches_digest_hex [simp]:
  "matches digestRegex
     (CHR ''s'' # CHR ''h'' # CHR ''a'' # CHR ''2'' # CHR ''5'' # CHR ''6'' # CHR '':'' # hexOfSum s)"
proof -
  have "derivs digestRegex ''sha256:'' = AtomRep hexClass 64 64"
    by (simp add: digestRegex_def lit_def inClass_def)
  then show ?thesis
    using derivs_append[of digestRegex "''sha256:''" "hexOfSum s"]
    by (simp add: matches_def nullable_derivs_AtomRep)
qed

lemma not_ref_digest_hex [simp]:
  "\<not> matches refRegex
     (CHR ''s'' # CHR ''h'' # CHR ''a'' # CHR ''2'' # CHR ''5'' # CHR ''6'' # CHR '':'' # hexOfSum s)"
proof -
  have "derivs refRegex ''sha256:'' = Zero"
    by (simp add: refRegex_def refHead_def refTail_def inClass_def)
  then show ?thesis
    using derivs_append[of refRegex "''sha256:''" "hexOfSum s"]
    by (simp add: matches_def)
qed

lemma matches_name_lib_app: "matches nameRegex ''lib/app''"
  by (simp add: name_defs)

lemma refRegex_chars:
  assumes "matches refRegex ref"
  shows "CHR ''/'' \<notin> set ref \<and> ref \<noteq> [] \<and> ref \<noteq> ''.'' \<and> ref \<noteq> ''..''"
proof (cases ref)
  case Nil
  with assms show ?thesis by (simp add: matches_def refRegex_def)
next
  case (Cons c cs)
  have tl: "\<not> inClass refTail (CHR ''/'')" by (simp add: inClass_def refTail_def)
  have hd: "\<not> inClass refHead (CHR ''/'')" "\<not> inClass refHead (CHR ''.'')"
    by (simp_all add: inClass_def refHead_def)
  from assms Cons have c: "inClass refHead c"
    by (auto simp: matches_def refRegex_def split: if_splits)
  with assms Cons have "nullable (derivs (AtomRep refTail 1 127) cs)"
    by (simp add: matches_def refRegex_def)
  then have cs: "1 \<le> length cs" "list_all (inClass refTail) cs"
    by (simp_all add: nullable_derivs_AtomRep)
  from cs(2) tl have "CHR ''/'' \<notin> set cs" by (auto simp: list_all_iff)
  with c hd cs(1) Cons show ?thesis by auto
qed

subsection \<open>Strings with a part that holds no slash\<close>

lemma Split_no_slash [simp]: "CHR ''/'' \<notin> set s \<Longrightarrow> Split s ''/'' = [s]"
  by (rule Split_single_notin)

lemma Count_no_slash [simp]: "CHR ''/'' \<notin> set s \<Longrightarrow> Count s ''/'' = 0"
  by (rule Count_single_notin)

lemma HasPrefix_set: "HasPrefix s p \<Longrightarrow> set p \<subseteq> set s"
  by (metis HasPrefix_def set_take_subset)

lemma Contains_set: "Contains s sub \<Longrightarrow> set sub \<subseteq> set s"
proof (induction s)
  case Nil
  then show ?case by simp
next
  case (Cons a s)
  from Cons.prems have "HasPrefix (a # s) sub \<or> Contains s sub" by simp
  then show ?case
  proof
    assume "HasPrefix (a # s) sub"
    then show ?thesis by (rule HasPrefix_set)
  next
    assume "Contains s sub"
    with Cons.IH show ?thesis by auto
  qed
qed

lemma HasPrefix_no_slash [simp]:
  "CHR ''/'' \<notin> set s \<Longrightarrow> CHR ''/'' \<in> set p \<Longrightarrow> HasPrefix s p = False"
  using HasPrefix_set by blast

lemma Contains_no_slash [simp]:
  "CHR ''/'' \<notin> set s \<Longrightarrow> CHR ''/'' \<in> set sub \<Longrightarrow> Contains s sub = False"
  using Contains_set by blast

lemma HasSuffix_Cons: "length suf \<le> length s \<Longrightarrow> HasSuffix (c # s) suf = HasSuffix s suf"
  by (simp add: HasSuffix_def Suc_diff_le)

lemma HasSuffix_no_slash:
  "CHR ''/'' \<notin> set s \<Longrightarrow> CHR ''/'' \<in> set suf \<Longrightarrow> HasSuffix s suf = False"
  by (metis HasSuffix_def in_set_dropD)

subsection \<open>\<^verbatim>\<open>parseName\<close>\<close>

lemma nameParts_takeWhile: "nameParts ps = takeWhile (\<lambda>p. p \<notin> endpointKeywords) ps"
  by (induction ps) (auto simp: endpointKeywords_def)

lemma nameParts_append_keyword:
  "\<forall>p \<in> set xs. p \<notin> endpointKeywords \<Longrightarrow> k \<in> endpointKeywords \<Longrightarrow> nameParts (xs @ k # rest) = xs"
  by (simp add: nameParts_takeWhile takeWhile_append2)

lemma parseName_many_slashes:
  "2 < Count (TrimPrefix url ''/v2/'') ''/'' \<Longrightarrow>
   parseName url = Inr (componentsBeforeKeyword (TrimPrefix url ''/v2/''))"
  by (simp add: parseName_def componentsBeforeKeyword_def nameParts_takeWhile Let_def)

lemma hd_Split_single_append: "hd (Split (a @ c # b) [c]) = hd (Split a [c])"
  by (simp add: Split_single_append)

lemma parseName_name_keyword:
  assumes "\<forall>p \<in> set (Split X ''/''). p \<notin> endpointKeywords" and "k \<in> endpointKeywords"
  shows "parseName (''/v2/'' @ X @ ''/'' @ k @ ''/'' @ rest) = Inr X"
proof -
  define s where "s = X @ ''/'' @ k @ ''/'' @ rest"
  have k: "CHR ''/'' \<notin> set k" using assms(2) by (auto simp: endpointKeywords_def)
  have cnt: "Count s ''/'' = Count X ''/'' + 2 + Count rest ''/''"
    using k by (simp add: s_def Count_single_append Count_single_Cons Count_single_notin)
  have spl: "Split s ''/'' = Split X ''/'' @ k # Split rest ''/''"
    using k Split_single_append[of X "CHR ''/''" "k @ ''/'' @ rest"]
      Split_single_append[of k "CHR ''/''" rest]
    by (simp add: s_def Split_single_notin)
  have X: "Join (nameParts (Split s ''/'')) ''/'' = X"
    using assms(1,2) by (simp add: spl nameParts_append_keyword Join_Split_single)
  have two: "Count s ''/'' = 2 \<Longrightarrow> hd (Split s ''/'') = X"
  proof -
    assume "Count s ''/'' = 2"
    with cnt have "Count X ''/'' = 0" by simp
    then have "length (Split X ''/'') = 1" by (simp add: length_Split_single)
    then obtain y where y: "Split X ''/'' = [y]" by (cases "Split X ''/''") auto
    with Join_Split_single[of X "CHR ''/''"] have "y = X" by simp
    with y show ?thesis by (simp add: spl)
  qed
  have "parseName (''/v2/'' @ s) = Inr X"
    using cnt two X by (auto simp: parseName_def TrimPrefix_def Let_def)
  then show ?thesis by (simp add: s_def)
qed

text \<open>
  C7 (as the code has it): for every \<open>X\<close> that matches the name grammar, has at least two
  components and no component equal to \<^verbatim>\<open>blobs\<close>, \<^verbatim>\<open>manifests\<close>, \<^verbatim>\<open>tags\<close> or
  \<^verbatim>\<open>referrers\<close>, \<^verbatim>\<open>parseName("/v2/" + X + "/blobs/uploads/")\<close> returns \<open>X\<close>; and for
  every URL with more than two slashes after \<^verbatim>\<open>/v2/\<close> the returned name is all the
  components before the first keyword.
\<close>

theorem C7_parseName_before_keyword:
  "(matches nameRegex X \<and> 2 \<le> length (Split X ''/'') \<and> (\<forall>p \<in> set (Split X ''/''). p \<notin> endpointKeywords)
      \<longrightarrow> parseName (''/v2/'' @ X @ ''/blobs/uploads/'') = Inr X)
   \<and> (2 < Count (TrimPrefix url ''/v2/'') ''/''
      \<longrightarrow> parseName url = Inr (componentsBeforeKeyword (TrimPrefix url ''/v2/'')))"
proof (intro conjI impI)
  assume a: "matches nameRegex X \<and> 2 \<le> length (Split X ''/'') \<and> (\<forall>p \<in> set (Split X ''/''). p \<notin> endpointKeywords)"
  have "parseName (''/v2/'' @ X @ ''/'' @ ''blobs'' @ ''/'' @ ''uploads/'') = Inr X"
    by (rule parseName_name_keyword) (use a in \<open>auto simp: endpointKeywords_def\<close>)
  then show "parseName (''/v2/'' @ X @ ''/blobs/uploads/'') = Inr X" by simp
next
  assume "2 < Count (TrimPrefix url ''/v2/'') ''/''"
  then show "parseName url = Inr (componentsBeforeKeyword (TrimPrefix url ''/v2/''))"
    by (rule parseName_many_slashes)
qed

text \<open>
  The theorem at \<open>X = lib/app\<close> and at the URL of the repository's own test
  \<^verbatim>\<open>TestParseNameBlobsUploads\<close>.
\<close>

theorem C7_parseName_before_keyword_witness:
  "matches nameRegex ''lib/app'' \<and> 2 \<le> length (Split ''lib/app'' ''/'')
   \<and> list_all (\<lambda>p. p \<notin> endpointKeywords) (Split ''lib/app'' ''/'')
   \<and> parseName (''/v2/'' @ ''lib/app'' @ ''/blobs/uploads/'') = Inr ''lib/app''
   \<and> 2 < Count (TrimPrefix ''/v2/some/long/chained/repo/name/blobs/uploads'' ''/v2/'') ''/''
   \<and> parseName ''/v2/some/long/chained/repo/name/blobs/uploads''
       = Inr (componentsBeforeKeyword (TrimPrefix ''/v2/some/long/chained/repo/name/blobs/uploads'' ''/v2/''))"
  using C7_parseName_before_keyword [of "''lib/app''" "''/v2/some/long/chained/repo/name/blobs/uploads''"]
  by (simp add: name_defs str_defs endpointKeywords_def)

text \<open>
  C7 as stated fails: \<^verbatim>\<open>lib/tags\<close> matches the name grammar and has two components, yet
  the name parsed from \<^verbatim>\<open>/v2/lib/tags/blobs/uploads/\<close> is \<^verbatim>\<open>lib\<close>; and a URL with
  exactly two slashes after \<^verbatim>\<open>/v2/\<close> yields the first component only, keyword or not.
\<close>

theorem C7_counterexample:
  "matches nameRegex ''lib/tags'' \<and> 2 \<le> length (Split ''lib/tags'' ''/'')
   \<and> parseName (''/v2/'' @ ''lib/tags'' @ ''/blobs/uploads/'') = Inr ''lib''
   \<and> parseName ''/v2/a/b/c'' = Inr ''a''
   \<and> componentsBeforeKeyword (TrimPrefix ''/v2/a/b/c'' ''/v2/'') = ''a/b/c''"
  by (simp add: name_defs str_defs parseName_def componentsBeforeKeyword_def endpointKeywords_def)

subsection \<open>Validation of the repository name\<close>

lemma handler_name_invalid:
  assumes "\<not> (Method r = ''GET'' \<and> RequestURI r = ''/v2/'')"
    and "parseName (RequestURI r) = Inr name" and "\<not> matches nameRegex name"
  shows "handler e r fs =
           (Returned, writeOCIError ''NAME_INVALID'' ''invalid repository name'' 400 \<lparr>store = fs, out = []\<rparr>)"
  using assms by (auto simp: handler_def Let_def)

lemma handler_no_endpoint:
  assumes "\<not> (Method r = ''GET'' \<and> RequestURI r = ''/v2/'')"
    and "Count (TrimPrefix (RequestURI r) ''/v2/'') ''/'' \<le> 1"
  shows "handler e r fs =
           (Returned, writeServerError
              (ErrorString (''URL does not match any valid OCI endpoint: '' @ RequestURI r))
              \<lparr>store = fs, out = []\<rparr>)"
  using assms by (auto simp: handler_def parseName_def Let_def)

text \<open>
  C6 (as the code has it): a request other than \<^verbatim>\<open>GET /v2/\<close> whose parsed repository
  name does not match the name grammar is rejected with the OCI error
  \<^verbatim>\<open>NAME_INVALID\<close> and status 400, the store untouched; a request whose URI has
  at most one slash after \<^verbatim>\<open>/v2/\<close>, so that no name can be parsed, is answered with
  status 500, the store untouched.
\<close>

theorem C6_name_validation_status:
  "(\<not> (Method r1 = ''GET'' \<and> RequestURI r1 = ''/v2/'') \<and> parseName (RequestURI r1) = Inr name
      \<and> \<not> matches nameRegex name
    \<longrightarrow> statusOf (response e r1 fs) = Some 400
        \<and> bodyOf (response e r1 fs)
            = marshalErrorResponse ''NAME_INVALID'' ''invalid repository name'' ''{}'' @ [CHR 0x0A]
        \<and> serve e r1 fs = fs \<and> fst (handler e r1 fs) = Returned)
   \<and> (\<not> (Method r2 = ''GET'' \<and> RequestURI r2 = ''/v2/'')
      \<and> Count (TrimPrefix (RequestURI r2) ''/v2/'') ''/'' \<le> 1
    \<longrightarrow> statusOf (response e r2 fs) = Some 500 \<and> serve e r2 fs = fs
        \<and> fst (handler e r2 fs) = Returned)"
proof (intro conjI impI)
  assume a: "\<not> (Method r1 = ''GET'' \<and> RequestURI r1 = ''/v2/'') \<and> parseName (RequestURI r1) = Inr name
      \<and> \<not> matches nameRegex name"
  then have h: "handler e r1 fs =
           (Returned, writeOCIError ''NAME_INVALID'' ''invalid repository name'' 400 \<lparr>store = fs, out = []\<rparr>)"
    by (intro handler_name_invalid) auto
  show "statusOf (response e r1 fs) = Some 400"
    by (simp add: response_def h io_defs)
  show "bodyOf (response e r1 fs)
            = marshalErrorResponse ''NAME_INVALID'' ''invalid repository name'' ''{}'' @ [CHR 0x0A]"
    by (simp add: response_def h io_defs)
  show "serve e r1 fs = fs"
    by (simp add: serve_def h io_defs)
  show "fst (handler e r1 fs) = Returned"
    by (simp add: h)
next
  assume a: "\<not> (Method r2 = ''GET'' \<and> RequestURI r2 = ''/v2/'')
      \<and> Count (TrimPrefix (RequestURI r2) ''/v2/'') ''/'' \<le> 1"
  then have h: "handler e r2 fs =
           (Returned, writeServerError
              (ErrorString (''URL does not match any valid OCI endpoint: '' @ RequestURI r2))
              \<lparr>store = fs, out = []\<rparr>)"
    by (intro handler_no_endpoint) auto
  show "statusOf (response e r2 fs) = Some 500"
    by (simp add: response_def h io_defs)
  show "serve e r2 fs = fs"
    by (simp add: serve_def h io_defs)
  show "fst (handler e r2 fs) = Returned"
    by (simp add: h)
qed

text \<open>
  The theorem at \<^verbatim>\<open>GET /v2/Lib/App/manifests/v1\<close> (upper-case letters are outside the
  name grammar) and at \<^verbatim>\<open>GET /v2/manifests/v1\<close>.
\<close>

theorem C6_name_validation_status_witness:
  "\<not> (Method (mkRequest ''GET'' ''/v2/Lib/App/manifests/v1'' [] [] []) = ''GET''
        \<and> RequestURI (mkRequest ''GET'' ''/v2/Lib/App/manifests/v1'' [] [] []) = ''/v2/'')
   \<and> parseName (RequestURI (mkRequest ''GET'' ''/v2/Lib/App/manifests/v1'' [] [] [])) = Inr ''Lib/App''
   \<and> \<not> matches nameRegex ''Lib/App''
   \<and> statusOf (response exampleEnv (mkRequest ''GET'' ''/v2/Lib/App/manifests/v1'' [] [] []) repoStore) = Some 400
   \<and> serve exampleEnv (mkRequest ''GET'' ''/v2/Lib/App/manifests/v1'' [] [] []) repoStore = repoStore
   \<and> Count (TrimPrefix (RequestURI (mkRequest ''GET'' ''/v2/manifests/v1'' [] [] [])) ''/v2/'') ''/'' \<le> 1
   \<and> statusOf (response exampleEnv (mkRequest ''GET'' ''/v2/manifests/v1'' [] [] []) repoStore) = Some 500
   \<and> serve exampleEnv (mkRequest ''GET'' ''/v2/manifests/v1'' [] [] []) repoStore = repoStore"
  using C6_name_validation_status [of "mkRequest ''GET'' ''/v2/Lib/App/manifests/v1'' [] [] []" "''Lib/App''"
      exampleEnv repoStore "mkRequest ''GET'' ''/v2/manifests/v1'' [] [] []"]
  by (simp add: mkRequest_def parseName_def str_defs name_defs)

text \<open>
  C6 as stated fails: in \<^verbatim>\<open>GET /v2/manifests/v1\<close> no component precedes the endpoint
  keyword, and the answer is status 500, not \<^verbatim>\<open>NAME_INVALID\<close> with status 400;
  in \<^verbatim>\<open>/v2/lib/manifests/v1\<close> one component precedes it and the name \<^verbatim>\<open>lib\<close> is
  accepted.
\<close>

theorem C6_counterexample:
  "statusOf (response exampleEnv (mkRequest ''GET'' ''/v2/manifests/v1'' [] [] []) repoStore) = Some 500
   \<and> bodyOf (response exampleEnv (mkRequest ''GET'' ''/v2/manifests/v1'' [] [] []) repoStore)
       = ''Unexpected error encountered: URL does not match any valid OCI endpoint: /v2/manifests/v1'' @ [CHR 0x0A]
   \<and> parseName ''/v2/lib/manifests/v1'' = Inr ''lib'' \<and> matches nameRegex ''lib''"
  by (simp add: response_def handler_def mkRequest_def parseName_def str_defs name_defs io_defs)

subsection \<open>One response per request\<close>

text \<open>
  C10 fails on the code: for \<^verbatim>\<open>POST /v2/lib/app/blobs/uploads/\<close> without query
  parameters the block for the upload start writes the \<^verbatim>\<open>Location\<close> header and status
  202 and does not return; the next block then runs \<^verbatim>\<open>http.Error\<close> with
  \<^verbatim>\<open>Digest missing\<close>, a second \<^verbatim>\<open>WriteHeader\<close> and a body.
\<close>

theorem C10_upload_init_answered_twice:
  "response e (mkRequest ''POST'' ''/v2/lib/app/blobs/uploads/'' [] [] []) fs
     = [SetHeader ''Location'' (''/v2/lib/app/blobs/uploads/'' @ uuid4a e), WriteHeader 202,
        SetHeader ''Content-Type'' ''text/plain; charset=utf-8'',
        SetHeader ''X-Content-Type-Options'' ''nosniff'', WriteHeader 400,
        Write (''Digest missing'' @ [CHR 0x0A])]
   \<and> statusCalls (response e (mkRequest ''POST'' ''/v2/lib/app/blobs/uploads/'' [] [] []) fs) = [202, 400]
   \<and> statusOf (response e (mkRequest ''POST'' ''/v2/lib/app/blobs/uploads/'' [] [] []) fs) = Some 202
   \<and> bodyOf (response e (mkRequest ''POST'' ''/v2/lib/app/blobs/uploads/'' [] [] []) fs)
       = ''Digest missing'' @ [CHR 0x0A]"
  by (simp add: response_def handler_def mkRequest_def blocks_def block_defs io_defs str_defs
      parseName_def name_defs)

subsection \<open>Chunks out of range\<close>






lemma Split_Cons_Cons_nonempty: "Split s sep = a # b # cs \<Longrightarrow> s \<noteq> []"
  by auto





subsection \<open>Paths and the store\<close>

lemma path_Join_snoc:
  assumes "c \<noteq> []" "c \<noteq> ''.''" "c \<noteq> ''..''" "CHR ''/'' \<notin> set c"
  shows "path_Join root (xs @ [c]) = path_Join root xs @ [c]"
  using assms by (simp add: path_Join_def cleanStep_def)

lemma lookup_Nil [simp]: "lookup fs [] = Some Dir"
  by (simp add: lookup_def)

lemma lookup_update:
  "lookup (AList.update k v fs) q = (if q = [] then Some Dir else if q = k then Some v else lookup fs q)"
  by (simp add: lookup_def update_conv')

lemma lookup_mkdirs:
  "lookup (foldl (\<lambda>fs' q. if lookup fs' q = None then AList.update q Dir fs' else fs') fs qs) q
   = (if q \<in> set qs \<and> lookup fs q = None then Some Dir else lookup fs q)"
proof (induction qs arbitrary: fs)
  case Nil
  show ?case by simp
next
  case (Cons a qs)
  show ?case
  proof (cases "lookup fs a = None")
    case True
    then have "a \<noteq> []" by auto
    with True show ?thesis by (auto simp: Cons.IH lookup_update)
  next
    case False
    then show ?thesis by (auto simp: Cons.IH)
  qed
qed

lemma not_isFile: "\<not> isFile fs q \<Longrightarrow> lookup fs q = None \<or> lookup fs q = Some Dir"
  by (auto simp: isFile_def split: option.splits node.splits)

lemma os_MkdirAll_ok:
  assumes "\<not> list_ex (isFile fs) (prefixes T)"
  shows "\<exists>fs1. os_MkdirAll fs T = Inr fs1
           \<and> (\<forall>q. lookup fs1 q = (if prefix q T \<and> lookup fs q = None then Some Dir else lookup fs q))"
  using assms by (simp add: os_MkdirAll_def lookup_mkdirs)

lemma lookup_file_WriteAt:
  assumes "lookup fs f = Some (File c)" and "f \<noteq> []"
  shows "lookup (file_WriteAt fs f (length c) b) q
         = (if q = f then Some (File (c @ b)) else lookup fs q)"
  using assms by (auto simp: file_WriteAt_def fileContent_def lookup_update)

declare copyBody.simps [simp del]

lemma lookup_copyBody:
  "lookup fs f = Some (File c) \<Longrightarrow> f \<noteq> [] \<Longrightarrow> off = length c \<Longrightarrow>
   lookup (copyBody f rest off fs) q = (if q = f then Some (File (c @ rest)) else lookup fs q)"
proof (induction f rest off fs arbitrary: c rule: copyBody.induct)
  case (1 f rest off fs)
  define buf where "buf = take 1024 rest"
  define fs' where "fs' = file_WriteAt fs f off buf"
  have w: "\<And>q. lookup fs' q = (if q = f then Some (File (c @ buf)) else lookup fs q)"
    using lookup_file_WriteAt[OF "1.prems"(1,2)] "1.prems"(3) by (simp add: fs'_def)
  show ?case
  proof (cases "drop 1024 rest = []")
    case True
    then have "rest = buf" by (simp add: buf_def)
    moreover have "copyBody f rest off fs = fs'"
      using True by (simp add: copyBody.simps[of f rest off fs] fs'_def buf_def Let_def)
    ultimately show ?thesis using w by simp
  next
    case False
    have step: "copyBody f rest off fs = copyBody f (drop 1024 rest) (off + length buf) fs'"
      using False by (simp add: copyBody.simps[of f rest off fs] fs'_def buf_def Let_def)
    have "lookup fs' f = Some (File (c @ buf))" using w by simp
    moreover have "off + length buf = length (c @ buf)" using "1.prems"(3) by simp
    ultimately have "lookup (copyBody f (drop 1024 rest) (off + length buf) fs') q
          = (if q = f then Some (File ((c @ buf) @ drop 1024 rest)) else lookup fs' q)"
      using "1.IH"[OF buf_def fs'_def refl False _ "1.prems"(2)] by blast
    then show ?thesis using w step by (simp add: buf_def)
  qed
qed

lemma writeBodyToFile_ok:
  assumes "lookup (store st) dest \<noteq> Some Dir" and "lookup (store st) (butlast dest) = Some Dir"
    and "dest \<noteq> []"
  shows "out (writeBodyToFile dest r st) = out st
         \<and> (\<forall>q. lookup (store (writeBodyToFile dest r st)) q
                 = (if q = dest then Some (File (Body r)) else lookup (store st) q))"
proof (cases "lookup (store st) dest")
  case None
  define fs1 where "fs1 = AList.update dest (File []) (store st)"
  have l1: "lookup fs1 dest = Some (File [])" using assms(3) by (simp add: fs1_def lookup_update)
  have o: "os_OpenFile (store st) dest = Inr fs1"
    using None assms(2) by (simp add: os_OpenFile_def fs1_def)
  have t: "os_Truncate fs1 dest = Inr (AList.update dest (File []) fs1)"
    using l1 by (simp add: os_Truncate_def)
  have l2: "lookup (AList.update dest (File []) fs1) dest = Some (File [])"
    using assms(3) by (simp add: lookup_update)
  show ?thesis
    using o t lookup_copyBody[OF l1 assms(3), of 0 "Body r"] lookup_copyBody[OF l2 assms(3), of 0 "Body r"]
    by (auto simp: writeBodyToFile_def fs1_def lookup_update)
next
  case (Some nd)
  with assms(1) obtain c0 where c0: "lookup (store st) dest = Some (File c0)" by (cases nd) auto
  define fs2 where "fs2 = AList.update dest (File []) (store st)"
  have l2: "lookup fs2 dest = Some (File [])" using assms(3) by (simp add: fs2_def lookup_update)
  have s: "os_Stat (store st) dest = Inr (File c0)" using c0 by (simp add: os_Stat_def)
  have o: "os_OpenFile (store st) dest = Inr (store st)" using c0 by (simp add: os_OpenFile_def)
  have t: "os_Truncate (store st) dest = Inr fs2" using c0 by (simp add: os_Truncate_def fs2_def)
  show ?thesis
    using s o t lookup_copyBody[OF l2 assms(3), of 0 "Body r"]
    by (auto simp: writeBodyToFile_def fs2_def lookup_update)
qed

lemma set_dirNames: "set (dirNames fs p) = {n. lookup fs (p @ [n]) \<noteq> None}"
proof -
  have "set (dirNames fs p) = (\<lambda>(q, n). last q) ` {x \<in> set fs. fst x \<noteq> [] \<and> butlast (fst x) = p}"
    by (auto simp: dirNames_def)
  also have "\<dots> = {n. p @ [n] \<in> fst ` set fs}"
  proof (intro set_eqI iffI)
    fix n
    assume "n \<in> (\<lambda>(q, n). last q) ` {x \<in> set fs. fst x \<noteq> [] \<and> butlast (fst x) = p}"
    then obtain q nd where x: "(q, nd) \<in> set fs" "q \<noteq> []" "butlast q = p" "n = last q" by auto
    then have "p @ [n] = q" using append_butlast_last_id[of q] by simp
    with x(1) show "n \<in> {n. p @ [n] \<in> fst ` set fs}" by force
  next
    fix n
    assume "n \<in> {n. p @ [n] \<in> fst ` set fs}"
    then obtain nd where "(p @ [n], nd) \<in> set fs" by auto
    then show "n \<in> (\<lambda>(q, n). last q) ` {x \<in> set fs. fst x \<noteq> [] \<and> butlast (fst x) = p}"
      by force
  qed
  also have "\<dots> = {n. lookup fs (p @ [n]) \<noteq> None}"
    by (simp add: lookup_def map_of_eq_None_iff)
  finally show ?thesis .
qed

lemma findManifestLoop_skip:
  "a = ''_blobs'' \<or> \<not> d \<Longrightarrow>
   findManifestLoop fs R name D ((a, d) # files) = findManifestLoop fs R name D files"
  by auto

lemma findManifestLoop_dir:
  "a \<noteq> ''_blobs'' \<Longrightarrow> lookup fs (path_Join R [name, a, ''manifest.json'']) = Some (File c) \<Longrightarrow>
   findManifestLoop fs R name D ((a, True) # files)
   = (if getDigest c = D then Inr (Some (path_Join R [name, a, ''manifest.json'']))
      else findManifestLoop fs R name D files)"
  by (simp add: os_Open_def readAll_def Let_def)

lemma findManifestLoop_finds:
  assumes "\<forall>n \<in> set L. n \<noteq> ''_blobs'' \<and> lookup fs (P @ [n]) = Some Dir \<longrightarrow>
             (\<exists>c. lookup fs (path_Join R [name, n, ''manifest.json'']) = Some (File c)
                   \<and> (getDigest c = getDigest M \<longrightarrow> c = M))"
    and "\<exists>n \<in> set L. n \<noteq> ''_blobs'' \<and> lookup fs (P @ [n]) = Some Dir
             \<and> lookup fs (path_Join R [name, n, ''manifest.json'']) = Some (File M)"
  shows "\<exists>mp. findManifestLoop fs R name (getDigest M) (map (\<lambda>n. (n, lookup fs (P @ [n]) = Some Dir)) L)
               = Inr (Some mp) \<and> lookup fs mp = Some (File M)"
  using assms
proof (induction L)
  case Nil
  then show ?case by simp
next
  case (Cons a L)
  let ?files = "map (\<lambda>n. (n, lookup fs (P @ [n]) = Some Dir)) L"
  have unfold: "map (\<lambda>n. (n, lookup fs (P @ [n]) = Some Dir)) (a # L)
                = (a, lookup fs (P @ [a]) = Some Dir) # ?files" by simp
  have ok: "\<forall>n \<in> set L. n \<noteq> ''_blobs'' \<and> lookup fs (P @ [n]) = Some Dir \<longrightarrow>
             (\<exists>c. lookup fs (path_Join R [name, n, ''manifest.json'']) = Some (File c)
                   \<and> (getDigest c = getDigest M \<longrightarrow> c = M))"
    using Cons.prems(1) by simp
  show ?case
  proof (cases "a \<noteq> ''_blobs'' \<and> lookup fs (P @ [a]) = Some Dir")
    case False
    with Cons.prems(2) have ex: "\<exists>n \<in> set L. n \<noteq> ''_blobs'' \<and> lookup fs (P @ [n]) = Some Dir
             \<and> lookup fs (path_Join R [name, n, ''manifest.json'']) = Some (File M)"
      by auto
    have "findManifestLoop fs R name (getDigest M) ((a, lookup fs (P @ [a]) = Some Dir) # ?files)
          = findManifestLoop fs R name (getDigest M) ?files"
      using False by (intro findManifestLoop_skip) auto
    with Cons.IH[OF ok ex] show ?thesis by (simp only: unfold)
  next
    case True
    with Cons.prems(1) obtain c where c: "lookup fs (path_Join R [name, a, ''manifest.json'']) = Some (File c)"
      "getDigest c = getDigest M \<longrightarrow> c = M" by auto
    have step: "findManifestLoop fs R name (getDigest M) ((a, lookup fs (P @ [a]) = Some Dir) # ?files)
          = (if getDigest c = getDigest M then Inr (Some (path_Join R [name, a, ''manifest.json'']))
             else findManifestLoop fs R name (getDigest M) ?files)"
      using True c(1) findManifestLoop_dir[of a fs R name c "getDigest M" ?files] by simp
    show ?thesis
    proof (cases "getDigest c = getDigest M")
      case eq: True
      with c have "lookup fs (path_Join R [name, a, ''manifest.json'']) = Some (File M)" by simp
      with step eq show ?thesis by (simp only: unfold) simp
    next
      case ne: False
      have "a \<notin> {n \<in> set (a # L). lookup fs (path_Join R [name, n, ''manifest.json'']) = Some (File M)}"
        using c ne by auto
      with Cons.prems(2) have ex: "\<exists>n \<in> set L. n \<noteq> ''_blobs'' \<and> lookup fs (P @ [n]) = Some Dir
             \<and> lookup fs (path_Join R [name, n, ''manifest.json'']) = Some (File M)"
        by auto
      from Cons.IH[OF ok ex] step ne show ?thesis by (simp only: unfold) simp
    qed
  qed
qed

lemma Split_not_Contains: "\<not> Contains s sep \<Longrightarrow> Split s sep = [s]"
  by (induction s) auto

subsection \<open>A manifest stored and read back by its digest\<close>

lemma chain_skip: "b st = (Fallthrough, st) \<Longrightarrow> chain (b # bs) st = chain bs st"
  by simp

lemma manifest_put:
  assumes nm: "matches nameRegex name" and kw: "\<forall>p \<in> set (Split name ''/''). p \<notin> endpointKeywords"
    and rf: "matches refRegex ref"
    and m: "Method put = ''PUT''" and uri: "RequestURI put = ''/v2/'' @ name @ ''/manifests/'' @ ref"
    and bd: "Body put = M"
    and mk: "\<not> list_ex (isFile fs) (prefixes (path_Join (rootDir e) [name, ref]))"
    and nd: "lookup fs (path_Join (rootDir e) [name, ref, ''manifest.json'']) \<noteq> Some Dir"
  shows "\<exists>fs2. handler e put fs
           = (Fallthrough, \<lparr>store = fs2,
                out = [SetHeader ''Location'' (''/v2/'' @ name @ ''/manifests/'' @ getDigest M),
                       WriteHeader 201]\<rparr>)
         \<and> (\<forall>q. lookup fs2 q
               = (if q = path_Join (rootDir e) [name] @ [ref, ''manifest.json''] then Some (File M)
                  else if prefix q (path_Join (rootDir e) [name] @ [ref]) \<and> lookup fs q = None
                  then Some Dir else lookup fs q))"
proof -
  define P where "P = path_Join (rootDir e) [name]"
  define T where "T = P @ [ref]"
  define dest where "dest = P @ [ref, ''manifest.json'']"
  define endpoint where "endpoint = ''/manifests/'' @ ref"
  define st0 where "st0 = \<lparr>store = fs, out = []\<rparr>"
  from rf have r: "CHR ''/'' \<notin> set ref" "ref \<noteq> []" "ref \<noteq> ''.''" "ref \<noteq> ''..''"
    using refRegex_chars by auto
  have T_eq: "path_Join (rootDir e) [name, ref] = T"
    using path_Join_snoc[OF r(2,3,4,1), of "rootDir e" "[name]"] by (simp add: T_def P_def)
  have dest_eq: "path_Join (rootDir e) [name, ref, ''manifest.json''] = dest"
    using path_Join_snoc[of "''manifest.json''" "rootDir e" "[name, ref]"] T_eq
    by (simp add: dest_def T_def)
  have pn: "parseName (RequestURI put) = Inr name"
    using parseName_name_keyword[OF kw, of "''manifests''" ref] by (simp add: uri endpointKeywords_def)
  have ep: "TrimPrefix (RequestURI put) (''/v2/'' @ name) = endpoint"
    by (simp add: uri TrimPrefix_def endpoint_def)
  have c1: "\<not> Contains endpoint ''/blobs/uploads/''" and c2: "Contains endpoint ''/manifests/''"
    using r(1) by (simp_all add: endpoint_def)
  have sp: "last (Split endpoint ''/manifests/'') = ref"
    using r(1) by (simp add: endpoint_def Split_not_Contains)
  from os_MkdirAll_ok[OF mk[unfolded T_eq]] obtain fs1 where
    mkd: "os_MkdirAll fs T = Inr fs1"
    and l1: "\<And>q. lookup fs1 q = (if prefix q T \<and> lookup fs q = None then Some Dir else lookup fs q)"
    by blast
  define st1 where "st1 = writeBodyToFile dest put \<lparr>store = fs1, out = []\<rparr>"
  have np: "\<not> prefix dest T" by (auto simp: dest_def T_def prefix_def)
  have a1: "lookup fs1 dest \<noteq> Some Dir" using nd np by (simp add: l1 dest_eq)
  have "\<not> isFile fs T" using mk by (simp add: T_eq list_ex_iff)
  then have a2: "lookup fs1 T = Some Dir" using not_isFile[of fs T] by (auto simp: l1)
  have bl: "butlast dest = T" by (simp add: dest_def T_def butlast_append)
  have dne: "dest \<noteq> []" by (simp add: dest_def)
  from writeBodyToFile_ok[of "\<lparr>store = fs1, out = []\<rparr>" dest put] a1 a2 bl dne
  have o1: "out st1 = []"
    and l2: "\<And>q. lookup (store st1) q = (if q = dest then Some (File M) else lookup fs1 q)"
    by (simp_all add: st1_def bd)
  have e7: "end7 e put name endpoint st0
            = (Fallthrough, \<lparr>store = store st1,
                 out = [SetHeader ''Location'' (''/v2/'' @ name @ ''/manifests/'' @ getDigest M),
                        WriteHeader 201]\<rparr>)"
    using m c2 sp mkd l2[of dest] o1
    by (simp add: end7_def Let_def T_eq dest_eq st0_def st1_def[symmetric] os_Open_def readAll_def emit_def)
  have skip: "end2 e put name endpoint st0 = (Fallthrough, st0)"
    "end3 e put name endpoint st0 = (Fallthrough, st0)"
    "end4a e put name endpoint st0 = (Fallthrough, st0)"
    "end4b e put name endpoint st0 = (Fallthrough, st0)"
    "end5 e put name endpoint st0 = (Fallthrough, st0)"
    "end6 e put name endpoint st0 = (Fallthrough, st0)"
    using m c1 by (simp_all add: end2_def end3_def end4a_def end4b_def end5_def end6_def)
  have skip2: "\<And>st. end8a e put name endpoint st = (Fallthrough, st)"
    "\<And>st. end8b e put name endpoint st = (Fallthrough, st)"
    "\<And>st. end9 e put name endpoint st = (Fallthrough, st)"
    "\<And>st. end10 e put name endpoint st = (Fallthrough, st)"
    "\<And>st. end11 e put name endpoint st = (Fallthrough, st)"
    "\<And>st. end12a e put name endpoint st = (Fallthrough, st)"
    "\<And>st. end12b e put name endpoint st = (Fallthrough, st)"
    "\<And>st. end13 e put name endpoint st = (Fallthrough, st)"
    using m by (simp_all add: end8a_def end8b_def end9_def end10_def end11_def end12a_def end12b_def end13_def)
  have "handler e put fs = chain (map (\<lambda>b. b e put name endpoint) blocks) st0"
    using m pn nm ep by (simp add: handler_def Let_def st0_def)
  then have h: "handler e put fs
            = (Fallthrough, \<lparr>store = store st1,
                 out = [SetHeader ''Location'' (''/v2/'' @ name @ ''/manifests/'' @ getDigest M),
                        WriteHeader 201]\<rparr>)"
    using skip e7 skip2 by (simp add: blocks_def)
  have "\<forall>q. lookup (store st1) q
               = (if q = P @ [ref, ''manifest.json''] then Some (File M)
                  else if prefix q (P @ [ref]) \<and> lookup fs q = None
                  then Some Dir else lookup fs q)"
    using l2 l1 by (simp add: dest_def T_def)
  with h show ?thesis unfolding P_def by blast
qed

lemma manifest_get:
  assumes nm: "matches nameRegex name" and kw: "\<forall>p \<in> set (Split name ''/''). p \<notin> endpointKeywords"
    and m: "Method get = ''GET''"
    and uri: "RequestURI get = ''/v2/'' @ name @ ''/manifests/'' @ getDigest M"
    and dirP: "lookup fs (path_Join (rootDir e) [name]) = Some Dir"
    and ok: "\<forall>n \<in> set (dirNames fs (path_Join (rootDir e) [name])).
               n \<noteq> ''_blobs'' \<and> lookup fs (path_Join (rootDir e) [name] @ [n]) = Some Dir \<longrightarrow>
               (\<exists>c. lookup fs (path_Join (rootDir e) [name, n, ''manifest.json'']) = Some (File c)
                     \<and> (getDigest c = getDigest M \<longrightarrow> c = M))"
    and ex: "\<exists>n \<in> set (dirNames fs (path_Join (rootDir e) [name])).
               n \<noteq> ''_blobs'' \<and> lookup fs (path_Join (rootDir e) [name] @ [n]) = Some Dir
               \<and> lookup fs (path_Join (rootDir e) [name, n, ''manifest.json'']) = Some (File M)"
  shows "handler e get fs
         = (Fallthrough, \<lparr>store = fs, out = (if M = [] then [] else [Write M]) @ [WriteHeader 200]\<rparr>)"
proof -
  define P where "P = path_Join (rootDir e) [name]"
  define D where "D = getDigest M"
  define endpoint where "endpoint = ''/manifests/'' @ D"
  define st0 where "st0 = \<lparr>store = fs, out = []\<rparr>"
  have slash: "CHR ''/'' \<notin> set D" by (simp add: D_def getDigest_def)
  have pn: "parseName (RequestURI get) = Inr name"
    using parseName_name_keyword[OF kw, of "''manifests''" D] by (simp add: uri endpointKeywords_def D_def)
  have ne: "RequestURI get \<noteq> ''/v2/''" by (simp add: uri)
  have ep: "TrimPrefix (RequestURI get) (''/v2/'' @ name) = endpoint"
    by (simp add: uri TrimPrefix_def endpoint_def D_def)
  have c1: "\<not> Contains endpoint ''/blobs/sha256:''" and c2: "Contains endpoint ''/manifests/''"
    and c3: "\<not> Contains endpoint ''/referrers/''" and c4: "\<not> Contains endpoint ''/blobs/uploads/''"
    using slash by (simp_all add: endpoint_def)
  have "length ''/tags/list'' \<le> length D" by (simp add: D_def getDigest_def)
  then have c5: "\<not> HasSuffix endpoint ''/tags/list''"
    using slash by (simp add: endpoint_def HasSuffix_Cons HasSuffix_no_slash)
  have lp: "last (Split endpoint ''/'') = D"
    using slash by (simp add: endpoint_def)
  have md: "matches digestRegex D" and nr: "\<not> matches refRegex D"
    by (simp_all add: D_def)
  have rd: "os_ReadDir fs P = Inr (map (\<lambda>n. (n, lookup fs (P @ [n]) = Some Dir)) (dirNames fs P))"
    using dirP by (simp add: os_ReadDir_def P_def)
  from findManifestLoop_finds[of "dirNames fs P" fs P "rootDir e" name M] ok ex
  obtain mp where mp: "findManifestLoop fs (rootDir e) name D
        (map (\<lambda>n. (n, lookup fs (P @ [n]) = Some Dir)) (dirNames fs P)) = Inr (Some mp)"
      "lookup fs mp = Some (File M)"
    unfolding P_def D_def by blast
  have fm: "findManifest fs (rootDir e) name D = Inr (Some mp)"
    using rd mp(1) by (simp add: findManifest_def P_def)
  have fe: "fileExists fs mp = Inr True" and rf: "readFile fs mp = Inr M"
    using mp(2) by (simp_all add: fileExists_def readFile_def os_Open_def readAll_def)
  have e3: "end3 e get name endpoint st0
            = (Fallthrough, \<lparr>store = fs, out = (if M = [] then [] else [Write M]) @ [WriteHeader 200]\<rparr>)"
    using m c2 lp md nr fm fe rf
    by (simp add: end3_def Let_def st0_def emit_def WriteTo_def)
  have skip: "end2 e get name endpoint st0 = (Fallthrough, st0)"
    using c1 by (simp add: end2_def)
  have skip2: "\<And>st. end4a e get name endpoint st = (Fallthrough, st)"
    "\<And>st. end4b e get name endpoint st = (Fallthrough, st)"
    "\<And>st. end5 e get name endpoint st = (Fallthrough, st)"
    "\<And>st. end6 e get name endpoint st = (Fallthrough, st)"
    "\<And>st. end7 e get name endpoint st = (Fallthrough, st)"
    "\<And>st. end8a e get name endpoint st = (Fallthrough, st)"
    "\<And>st. end8b e get name endpoint st = (Fallthrough, st)"
    "\<And>st. end9 e get name endpoint st = (Fallthrough, st)"
    "\<And>st. end10 e get name endpoint st = (Fallthrough, st)"
    "\<And>st. end11 e get name endpoint st = (Fallthrough, st)"
    "\<And>st. end12a e get name endpoint st = (Fallthrough, st)"
    "\<And>st. end12b e get name endpoint st = (Fallthrough, st)"
    "\<And>st. end13 e get name endpoint st = (Fallthrough, st)"
    using m c3 c4 c5
    by (simp_all add: end4a_def end4b_def end5_def end6_def end7_def end8a_def end8b_def end9_def
        end10_def end11_def end12a_def end12b_def end13_def)
  have "handler e get fs = chain (map (\<lambda>b. b e get name endpoint) blocks) st0"
    using m pn nm ep ne by (simp add: handler_def Let_def st0_def)
  then show ?thesis
    using skip e3 skip2 by (simp add: blocks_def)
qed

text \<open>
  C8 (as the code has it): for a repository name that matches the name grammar and has
  no keyword component, a reference \<open>ref\<close> that matches the reference grammar and is
  not \<^verbatim>\<open>_blobs\<close>, and a store in which no file stands in the way of the tag directory,
  \<^verbatim>\<open>manifest.json\<close> of the tag is no directory, and every other directory of the
  repository except \<^verbatim>\<open>_blobs\<close> holds a \<^verbatim>\<open>manifest.json\<close> file that does not
  collide with \<open>M\<close> under SHA-256: the \<^verbatim>\<open>PUT\<close> of \<open>M\<close> is answered 201 with
  \<^verbatim>\<open>Location: /v2/<name>/manifests/<D>\<close>, \<open>D\<close> the digest of \<open>M\<close>, and the
  \<^verbatim>\<open>GET\<close> of that location on the resulting store is answered 200 with exactly \<open>M\<close>.
\<close>

theorem C8_manifest_put_get_round_trip:
  assumes "matches nameRegex name" and "\<forall>p \<in> set (Split name ''/''). p \<notin> endpointKeywords"
    and "matches refRegex ref" and "ref \<noteq> ''_blobs''"
    and "Method put = ''PUT''" and "RequestURI put = ''/v2/'' @ name @ ''/manifests/'' @ ref"
    and "Body put = M"
    and "Method get = ''GET''" and "RequestURI get = ''/v2/'' @ name @ ''/manifests/'' @ getDigest M"
    and "\<not> list_ex (isFile fs) (prefixes (path_Join (rootDir e) [name, ref]))"
    and "lookup fs (path_Join (rootDir e) [name, ref, ''manifest.json'']) \<noteq> Some Dir"
    and "otherTagsReadable fs (rootDir e) name ref M"
  shows "statusOf (response e put fs) = Some 201
       \<and> headerOf ''Location'' (response e put fs) None
           = Some (''/v2/'' @ name @ ''/manifests/'' @ getDigest M)
       \<and> statusOf (response e get (serve e put fs)) = Some 200
       \<and> bodyOf (response e get (serve e put fs)) = M"
proof -
  define P where "P = path_Join (rootDir e) [name]"
  define T where "T = P @ [ref]"
  define dest where "dest = P @ [ref, ''manifest.json'']"
  from assms(3) have r: "CHR ''/'' \<notin> set ref" "ref \<noteq> []" "ref \<noteq> ''.''" "ref \<noteq> ''..''"
    using refRegex_chars by auto
  have T_eq: "path_Join (rootDir e) [name, ref] = T"
    using path_Join_snoc[OF r(2,3,4,1), of "rootDir e" "[name]"] by (simp add: T_def P_def)
  have pj: "\<And>n. n \<noteq> [] \<Longrightarrow> n \<noteq> ''.'' \<Longrightarrow> n \<noteq> ''..'' \<Longrightarrow> CHR ''/'' \<notin> set n \<Longrightarrow>
              path_Join (rootDir e) [name, n, ''manifest.json''] = P @ [n, ''manifest.json'']"
  proof -
    fix n :: string
    assume n: "n \<noteq> []" "n \<noteq> ''.''" "n \<noteq> ''..''" "CHR ''/'' \<notin> set n"
    have "path_Join (rootDir e) [name, n] = P @ [n]"
      using path_Join_snoc[OF n, of "rootDir e" "[name]"] by (simp add: P_def)
    then show "path_Join (rootDir e) [name, n, ''manifest.json''] = P @ [n, ''manifest.json'']"
      using path_Join_snoc[of "''manifest.json''" "rootDir e" "[name, n]"] by simp
  qed
  have dest_eq: "path_Join (rootDir e) [name, ref, ''manifest.json''] = dest"
    using pj[OF r(2,3,4,1)] by (simp add: dest_def)
  from manifest_put[OF assms(1,2,3,5,6,7,10,11)] obtain fs2 where
    h: "handler e put fs
           = (Fallthrough, \<lparr>store = fs2,
                out = [SetHeader ''Location'' (''/v2/'' @ name @ ''/manifests/'' @ getDigest M),
                       WriteHeader 201]\<rparr>)"
    and l2: "\<And>q. lookup fs2 q
               = (if q = dest then Some (File M)
                  else if prefix q T \<and> lookup fs q = None then Some Dir else lookup fs q)"
    unfolding P_def[symmetric] T_def[symmetric] dest_def[symmetric] by blast
  have nf: "\<And>q. prefix q T \<Longrightarrow> lookup fs q = None \<or> lookup fs q = Some Dir"
    using assms(10) not_isFile[of fs] by (auto simp: T_eq list_ex_iff)
  have pd: "\<And>q. prefix q T \<Longrightarrow> lookup fs2 q = Some Dir"
  proof -
    fix q assume q: "prefix q T"
    then have "q \<noteq> dest" by (auto simp: dest_def T_def prefix_def)
    with q nf[OF q] show "lookup fs2 q = Some Dir" by (auto simp: l2)
  qed
  have dirP: "lookup fs2 P = Some Dir" by (rule pd) (simp add: T_def)
  have dirT: "lookup fs2 T = Some Dir" by (rule pd) simp
  have destM: "lookup fs2 dest = Some (File M)" by (simp add: l2)
  have ok: "\<forall>n \<in> set (dirNames fs2 P).
               n \<noteq> ''_blobs'' \<and> lookup fs2 (P @ [n]) = Some Dir \<longrightarrow>
               (\<exists>c. lookup fs2 (path_Join (rootDir e) [name, n, ''manifest.json'']) = Some (File c)
                     \<and> (getDigest c = getDigest M \<longrightarrow> c = M))"
  proof (intro ballI impI)
    fix n
    assume n: "n \<noteq> ''_blobs'' \<and> lookup fs2 (P @ [n]) = Some Dir"
    show "\<exists>c. lookup fs2 (path_Join (rootDir e) [name, n, ''manifest.json'']) = Some (File c)
                     \<and> (getDigest c = getDigest M \<longrightarrow> c = M)"
    proof (cases "n = ref")
      case True
      then show ?thesis using destM dest_eq by simp
    next
      case False
      have nd: "P @ [n] \<noteq> dest" by (simp add: dest_def)
      have np: "\<not> prefix (P @ [n]) T" using False by (auto simp: T_def prefix_def)
      from n nd np have old: "lookup fs (P @ [n]) = Some Dir" by (simp add: l2)
      then have "n \<in> set (dirNames fs P)" by (simp add: set_dirNames)
      then have "n = ''_blobs'' \<or> n = ref \<or> lookup fs (P @ [n]) \<noteq> Some Dir
                 \<or> (case lookup fs (path_Join (rootDir e) [name, n, ''manifest.json'']) of
                      Some (File c) \<Rightarrow> (getDigest c = getDigest M \<longrightarrow> c = M)
                    | _ \<Rightarrow> False)"
        using assms(12) unfolding otherTagsReadable_def list_all_iff P_def by blast
      with n False old
      have cs: "case lookup fs (path_Join (rootDir e) [name, n, ''manifest.json'']) of
                  Some (File c) \<Rightarrow> (getDigest c = getDigest M \<longrightarrow> c = M)
                | _ \<Rightarrow> False"
        by blast
      then obtain c where c: "lookup fs (path_Join (rootDir e) [name, n, ''manifest.json'']) = Some (File c)"
        "getDigest c = getDigest M \<longrightarrow> c = M"
        by (cases "lookup fs (path_Join (rootDir e) [name, n, ''manifest.json''])")
           (auto split: node.splits)
      show ?thesis
      proof (cases "path_Join (rootDir e) [name, n, ''manifest.json''] = dest")
        case True
        then show ?thesis using destM by simp
      next
        case False
        with c show ?thesis by (simp add: l2)
      qed
    qed
  qed
  have ex: "\<exists>n \<in> set (dirNames fs2 P).
               n \<noteq> ''_blobs'' \<and> lookup fs2 (P @ [n]) = Some Dir
               \<and> lookup fs2 (path_Join (rootDir e) [name, n, ''manifest.json'']) = Some (File M)"
  proof
    show "ref \<in> set (dirNames fs2 P)" using dirT by (simp add: set_dirNames T_def)
    show "ref \<noteq> ''_blobs'' \<and> lookup fs2 (P @ [ref]) = Some Dir
               \<and> lookup fs2 (path_Join (rootDir e) [name, ref, ''manifest.json'']) = Some (File M)"
      using assms(4) dirT destM dest_eq by (simp add: T_def)
  qed
  have g: "handler e get fs2
         = (Fallthrough, \<lparr>store = fs2, out = (if M = [] then [] else [Write M]) @ [WriteHeader 200]\<rparr>)"
    using manifest_get[OF assms(1,2,8,9), of fs2 e] dirP ok ex unfolding P_def by blast
  have s: "serve e put fs = fs2" by (simp add: serve_def h)
  show ?thesis
    by (simp add: response_def s h g)
qed

text \<open>
  The theorem on the repository \<^verbatim>\<open>lib/app\<close> with the tags \<^verbatim>\<open>a\<close> to \<^verbatim>\<open>d\<close>, for
  the new tag \<^verbatim>\<open>v1\<close> and the manifest \<^verbatim>\<open>{}\<close>.
\<close>

theorem C8_manifest_put_get_round_trip_witness:
  "matches nameRegex ''lib/app'' \<and> list_all (\<lambda>p. p \<notin> endpointKeywords) (Split ''lib/app'' ''/'')
   \<and> matches refRegex ''v1''
   \<and> \<not> list_ex (isFile tagsStore) (prefixes (path_Join (rootDir exampleEnv) [''lib/app'', ''v1'']))
   \<and> lookup tagsStore (path_Join (rootDir exampleEnv) [''lib/app'', ''v1'', ''manifest.json'']) = None
   \<and> otherTagsReadable tagsStore (rootDir exampleEnv) ''lib/app'' ''v1'' ''{}''
   \<and> statusOf (response exampleEnv (mkRequest ''PUT'' ''/v2/lib/app/manifests/v1'' [] [] ''{}'') tagsStore)
       = Some 201
   \<and> headerOf ''Location''
        (response exampleEnv (mkRequest ''PUT'' ''/v2/lib/app/manifests/v1'' [] [] ''{}'') tagsStore) None
       = Some (''/v2/lib/app/manifests/'' @ getDigest ''{}'')
   \<and> statusOf (response exampleEnv
        (mkRequest ''GET'' (''/v2/lib/app/manifests/'' @ getDigest ''{}'') [] [] [])
        (serve exampleEnv (mkRequest ''PUT'' ''/v2/lib/app/manifests/v1'' [] [] ''{}'') tagsStore))
       = Some 200
   \<and> bodyOf (response exampleEnv
        (mkRequest ''GET'' (''/v2/lib/app/manifests/'' @ getDigest ''{}'') [] [] [])
        (serve exampleEnv (mkRequest ''PUT'' ''/v2/lib/app/manifests/v1'' [] [] ''{}'') tagsStore))
       = ''{}''"
proof -
  have h: "matches nameRegex ''lib/app''" "\<forall>p \<in> set (Split ''lib/app'' ''/''). p \<notin> endpointKeywords"
    "matches refRegex ''v1''" "''v1'' \<noteq> ''_blobs''"
    by (simp_all add: name_defs regex_defs endpointKeywords_def)
  have s: "\<not> list_ex (isFile tagsStore) (prefixes (path_Join (rootDir exampleEnv) [''lib/app'', ''v1'']))"
    "lookup tagsStore (path_Join (rootDir exampleEnv) [''lib/app'', ''v1'', ''manifest.json'']) = None"
    "otherTagsReadable tagsStore (rootDir exampleEnv) ''lib/app'' ''v1'' ''{}''"
    by (simp_all add: otherTagsReadable_def os_defs exampleEnv_def tagsStore_def repoStore_def)
  have r: "Method (mkRequest ''PUT'' ''/v2/lib/app/manifests/v1'' [] [] ''{}'') = ''PUT''"
    "RequestURI (mkRequest ''PUT'' ''/v2/lib/app/manifests/v1'' [] [] ''{}'') = ''/v2/'' @ ''lib/app'' @ ''/manifests/'' @ ''v1''"
    "Body (mkRequest ''PUT'' ''/v2/lib/app/manifests/v1'' [] [] ''{}'') = ''{}''"
    "Method (mkRequest ''GET'' (''/v2/lib/app/manifests/'' @ getDigest ''{}'') [] [] []) = ''GET''"
    "RequestURI (mkRequest ''GET'' (''/v2/lib/app/manifests/'' @ getDigest ''{}'') [] [] [])
       = ''/v2/'' @ ''lib/app'' @ ''/manifests/'' @ getDigest ''{}''"
    by (simp_all add: mkRequest_def)
  have nd: "lookup tagsStore (path_Join (rootDir exampleEnv) [''lib/app'', ''v1'', ''manifest.json'']) \<noteq> Some Dir"
    using s(2) by simp
  from C8_manifest_put_get_round_trip[OF h r s(1) nd s(3)] h s
  show ?thesis by (simp add: list_all_iff)
qed

text \<open>
  C8 as stated fails. \<^verbatim>\<open>_blobs\<close> matches the reference grammar; the manifest put under
  it lands in the blob directory, which the digest scan skips, and the \<^verbatim>\<open>GET\<close> of the
  returned location is answered 404. And next to the repository \<^verbatim>\<open>lib/app/aaa\<close> the
  scan of \<^verbatim>\<open>lib/app\<close> meets the directory \<^verbatim>\<open>aaa\<close> without a
  \<^verbatim>\<open>manifest.json\<close> before it reaches \<^verbatim>\<open>v1\<close>, and the answer is 404 as well.
\<close>

theorem C8_counterexample:
  "matches refRegex ''_blobs''
   \<and> statusOf (response exampleEnv (mkRequest ''PUT'' ''/v2/lib/app/manifests/_blobs'' [] [] ''{}'') repoStore)
       = Some 201
   \<and> headerOf ''Location''
        (response exampleEnv (mkRequest ''PUT'' ''/v2/lib/app/manifests/_blobs'' [] [] ''{}'') repoStore) None
       = Some (''/v2/lib/app/manifests/'' @ getDigest ''{}'')
   \<and> statusOf (response exampleEnv
        (mkRequest ''GET'' (''/v2/lib/app/manifests/'' @ getDigest ''{}'') [] [] [])
        (serve exampleEnv (mkRequest ''PUT'' ''/v2/lib/app/manifests/_blobs'' [] [] ''{}'') repoStore))
       = Some 404
   \<and> statusOf (response exampleEnv (mkRequest ''PUT'' ''/v2/lib/app/manifests/v1'' [] [] ''{}'') nestedStore)
       = Some 201
   \<and> statusOf (response exampleEnv
        (mkRequest ''GET'' (''/v2/lib/app/manifests/'' @ getDigest ''{}'') [] [] [])
        (serve exampleEnv (mkRequest ''PUT'' ''/v2/lib/app/manifests/v1'' [] [] ''{}'') nestedStore))
       = Some 404"
proof -
  have p1: "handler exampleEnv (mkRequest ''PUT'' ''/v2/lib/app/manifests/_blobs'' [] [] ''{}'') repoStore
     = (Fallthrough, \<lparr>store = repoStore @ [([''srv'', ''data'', ''lib'', ''app'', ''_blobs'', ''manifest.json''], File ''{}'')],
          out = [SetHeader ''Location'' (''/v2/lib/app/manifests/'' @ getDigest ''{}''), WriteHeader 201]\<rparr>)"
    by (simp add: sym_defs matches_name_lib_app copyBody.simps)
  have p2: "handler exampleEnv (mkRequest ''PUT'' ''/v2/lib/app/manifests/v1'' [] [] ''{}'') nestedStore
     = (Fallthrough, \<lparr>store = nestedStore @ [([''srv'', ''data'', ''lib'', ''app'', ''v1''], Dir),
            ([''srv'', ''data'', ''lib'', ''app'', ''v1'', ''manifest.json''], File ''{}'')],
          out = [SetHeader ''Location'' (''/v2/lib/app/manifests/'' @ getDigest ''{}''), WriteHeader 201]\<rparr>)"
    by (simp add: sym_defs matches_name_lib_app copyBody.simps)
  have g1: "statusOf (response exampleEnv
        (mkRequest ''GET'' (''/v2/lib/app/manifests/'' @ getDigest ''{}'') [] [] [])
        (repoStore @ [([''srv'', ''data'', ''lib'', ''app'', ''_blobs'', ''manifest.json''], File ''{}'')]))
       = Some 404"
    by (simp add: response_def sym_defs matches_name_lib_app HasSuffix_Cons)
  have g2: "statusOf (response exampleEnv
        (mkRequest ''GET'' (''/v2/lib/app/manifests/'' @ getDigest ''{}'') [] [] [])
        (nestedStore @ [([''srv'', ''data'', ''lib'', ''app'', ''v1''], Dir),
            ([''srv'', ''data'', ''lib'', ''app'', ''v1'', ''manifest.json''], File ''{}'')]))
       = Some 404"
    by (simp add: response_def sym_defs matches_name_lib_app HasSuffix_Cons)
  have r: "matches refRegex ''_blobs''" by (simp add: matches_def regex_defs inClass_def)
  show ?thesis
    using r g1 g2 by (simp add: response_def serve_def p1 p2)
qed

subsection \<open>Requests the code answers otherwise than specified\<close>

lemma HasSuffix_digest_tags [simp]:
  "HasSuffix (CHR ''s'' # CHR ''h'' # CHR ''a'' # CHR ''2'' # CHR ''5'' # CHR ''6'' # CHR '':'' # hexOfSum s)
     ''/tags/list'' = False"
  by (simp add: HasSuffix_no_slash)

text \<open>
  C1 fails on the code: the \<^verbatim>\<open>PUT\<close> that finishes a chunked upload renames the
  session file to whatever the \<^verbatim>\<open>digest\<close> parameter says and answers 201, without
  computing a digest. The same session bytes \<open>c\<close> are stored under two different
  claimed digests, so at least one blob file is not named by the digest of its contents.
\<close>

theorem C1_finalize_renames_unverified:
  "handler exampleEnv
     (mkRequest ''PUT'' (''/v2/lib/app/blobs/uploads/sess?digest='' @ zeroDigest) []
        [(''digest'', zeroDigest)] []) (sessionStore c)
     = (Returned, \<lparr>store = blobStore zeroDigest c,
          out = [SetHeader ''Location'' (''/v2/lib/app/blobs/'' @ zeroDigest), WriteHeader 201]\<rparr>)
   \<and> handler exampleEnv
     (mkRequest ''PUT'' (''/v2/lib/app/blobs/uploads/sess?digest='' @ onesDigest) []
        [(''digest'', onesDigest)] []) (sessionStore c)
     = (Returned, \<lparr>store = blobStore onesDigest c,
          out = [SetHeader ''Location'' (''/v2/lib/app/blobs/'' @ onesDigest), WriteHeader 201]\<rparr>)
   \<and> zeroDigest \<noteq> onesDigest"
  by (simp add: eval_defs zeroDigest_def onesDigest_def)

text \<open>
  C2 fails on the code: the first \<^verbatim>\<open>PATCH\<close> (no \<^verbatim>\<open>Content-Range\<close>) with body
  \<^verbatim>\<open>abc\<close> only creates and truncates the session file, so the file stays empty; the
  second \<^verbatim>\<open>PATCH\<close> with \<^verbatim>\<open>Content-Range: 3-5\<close> is then answered 416; and after the
  \<^verbatim>\<open>PUT\<close> with the digest of \<^verbatim>\<open>abc\<close> the blob served under that digest is empty.
\<close>

theorem C2_first_chunk_dropped:
  "handler exampleEnv
     (mkRequest ''PATCH'' ''/v2/lib/app/blobs/uploads/sess'' [(''Content-Length'', ''3'')] [] ''abc'')
     repoStore
     = (Fallthrough, \<lparr>store = sessionStore [],
          out = [SetHeader ''Location'' ''/v2/lib/app/blobs/uploads/sess'', WriteHeader 202]\<rparr>)
   \<and> handler exampleEnv
     (mkRequest ''PATCH'' ''/v2/lib/app/blobs/uploads/sess''
        [(''Content-Length'', ''3''), (''Content-Range'', ''3-5'')] [] ''def'')
     (sessionStore [])
     = (Returned, \<lparr>store = sessionStore [],
          out = [SetHeader ''Location'' ''/v2/lib/app/blobs/uploads/sess'', WriteHeader 416]\<rparr>)
   \<and> handler exampleEnv
     (mkRequest ''PUT'' (''/v2/lib/app/blobs/uploads/sess?digest='' @ getDigest ''abc'') []
        [(''digest'', getDigest ''abc'')] [])
     (sessionStore [])
     = (Returned, \<lparr>store = blobStore (getDigest ''abc'') [],
          out = [SetHeader ''Location'' (''/v2/lib/app/blobs/'' @ getDigest ''abc''), WriteHeader 201]\<rparr>)
   \<and> handler exampleEnv
     (mkRequest ''GET'' (''/v2/lib/app/blobs/'' @ getDigest ''abc'') [] [] [])
     (blobStore (getDigest ''abc'') [])
     = (Fallthrough, \<lparr>store = blobStore (getDigest ''abc'') [],
          out = [SetHeader ''Docker-Content-Digest'' (getDigest ''abc''), WriteHeader 200]\<rparr>)"
proof (intro conjI)
  show "handler exampleEnv
     (mkRequest ''PATCH'' ''/v2/lib/app/blobs/uploads/sess'' [(''Content-Length'', ''3'')] [] ''abc'')
     repoStore
     = (Fallthrough, \<lparr>store = sessionStore [],
          out = [SetHeader ''Location'' ''/v2/lib/app/blobs/uploads/sess'', WriteHeader 202]\<rparr>)"
    by (simp add: eval_defs)
  show "handler exampleEnv
     (mkRequest ''PATCH'' ''/v2/lib/app/blobs/uploads/sess''
        [(''Content-Length'', ''3''), (''Content-Range'', ''3-5'')] [] ''def'')
     (sessionStore [])
     = (Returned, \<lparr>store = sessionStore [],
          out = [SetHeader ''Location'' ''/v2/lib/app/blobs/uploads/sess'', WriteHeader 416]\<rparr>)"
    by (simp add: eval_defs)
  show "handler exampleEnv
     (mkRequest ''PUT'' (''/v2/lib/app/blobs/uploads/sess?digest='' @ getDigest ''abc'') []
        [(''digest'', getDigest ''abc'')] [])
     (sessionStore [])
     = (Returned, \<lparr>store = blobStore (getDigest ''abc'') [],
          out = [SetHeader ''Location'' (''/v2/lib/app/blobs/'' @ getDigest ''abc''), WriteHeader 201]\<rparr>)"
    by (simp add: sym_defs matches_name_lib_app)
  show "handler exampleEnv
     (mkRequest ''GET'' (''/v2/lib/app/blobs/'' @ getDigest ''abc'') [] [] [])
     (blobStore (getDigest ''abc'') [])
     = (Fallthrough, \<lparr>store = blobStore (getDigest ''abc'') [],
          out = [SetHeader ''Docker-Content-Digest'' (getDigest ''abc''), WriteHeader 200]\<rparr>)"
    by (simp add: sym_defs matches_name_lib_app HasSuffix_Cons)
qed

text \<open>
  C3 fails on the code. For \<^verbatim>\<open>GET /v2/lib/app/tags/list?n=2&last=a\<close> no block of the
  handler matches, because \<^verbatim>\<open>r.RequestURI\<close> carries the query string and the test
  is \<^verbatim>\<open>strings.HasSuffix(endpoint, "/tags/list")\<close>: nothing is written. When the
  paginating block is reached (the URI ends in \<^verbatim>\<open>/tags/list\<close> and \<^verbatim>\<open>last\<close> is
  set), the list starts at \<^verbatim>\<open>last\<close> itself: tags \<^verbatim>\<open>a b c d\<close> with \<^verbatim>\<open>n=2\<close>,
  \<^verbatim>\<open>last=a\<close> give \<^verbatim>\<open>["a","b"]\<close>.
\<close>

theorem C3_tags_pagination_includes_last:
  "handler e
     (mkRequest ''GET'' ''/v2/lib/app/tags/list?n=2&last=a'' [] [(''n'', ''2''), (''last'', ''a'')] []) fs
     = (Fallthrough, \<lparr>store = fs, out = []\<rparr>)
   \<and> handler exampleEnv
     (mkRequest ''GET'' ''/v2/lib/app/tags/list?n=2&last=a&x=/tags/list'' []
        [(''n'', ''2''), (''last'', ''a''), (''x'', ''/tags/list'')] []) tagsStore
     = (Returned, \<lparr>store = tagsStore, out = [Write (marshalTagList ''lib/app'' [''a'', ''b''])]\<rparr>)"
proof (intro conjI)
  show "handler e
     (mkRequest ''GET'' ''/v2/lib/app/tags/list?n=2&last=a'' [] [(''n'', ''2''), (''last'', ''a'')] []) fs
     = (Fallthrough, \<lparr>store = fs, out = []\<rparr>)"
    by (simp add: handler_def mkRequest_def blocks_def block_defs io_defs str_defs parseName_def name_defs)
  show "handler exampleEnv
     (mkRequest ''GET'' ''/v2/lib/app/tags/list?n=2&last=a&x=/tags/list'' []
        [(''n'', ''2''), (''last'', ''a''), (''x'', ''/tags/list'')] []) tagsStore
     = (Returned, \<lparr>store = tagsStore, out = [Write (marshalTagList ''lib/app'' [''a'', ''b''])]\<rparr>)"
    by (simp add: eval_defs)
qed

text \<open>
  C4 fails on the code: \<^verbatim>\<open>DELETE\<close> removes the path \<^verbatim>\<open><name>/<last part>\<close> and
  answers 202 whether or not anything is there. Given the digest of the manifest that
  the tags \<^verbatim>\<open>a\<close> to \<^verbatim>\<open>d\<close> hold, it removes nothing; given a tag that does not
  exist, it answers 202 and not 404.
\<close>

theorem C4_delete_ignores_digest_and_absence:
  "handler exampleEnv
     (mkRequest ''DELETE'' (''/v2/lib/app/manifests/'' @ getDigest ''{}'') [] [] []) tagsStore
     = (Returned, \<lparr>store = tagsStore, out = [WriteHeader 202]\<rparr>)
   \<and> readFile tagsStore [''srv'', ''data'', ''lib'', ''app'', ''a'', ''manifest.json''] = Inr ''{}''
   \<and> handler exampleEnv
     (mkRequest ''DELETE'' ''/v2/lib/app/manifests/nosuchtag'' [] [] []) tagsStore
     = (Returned, \<lparr>store = tagsStore, out = [WriteHeader 202]\<rparr>)
   \<and> lookup tagsStore [''srv'', ''data'', ''lib'', ''app'', ''nosuchtag''] = None"
proof (intro conjI)
  show "handler exampleEnv
     (mkRequest ''DELETE'' (''/v2/lib/app/manifests/'' @ getDigest ''{}'') [] [] []) tagsStore
     = (Returned, \<lparr>store = tagsStore, out = [WriteHeader 202]\<rparr>)"
    by (simp add: sym_defs matches_name_lib_app)
  show "readFile tagsStore [''srv'', ''data'', ''lib'', ''app'', ''a'', ''manifest.json''] = Inr ''{}''"
    by (simp add: eval_defs)
  show "handler exampleEnv
     (mkRequest ''DELETE'' ''/v2/lib/app/manifests/nosuchtag'' [] [] []) tagsStore
     = (Returned, \<lparr>store = tagsStore, out = [WriteHeader 202]\<rparr>)"
    by (simp add: eval_defs)
  show "lookup tagsStore [''srv'', ''data'', ''lib'', ''app'', ''nosuchtag''] = None"
    by (simp add: eval_defs)
qed

text \<open>
  C9 fails on the code: in the paginating block a non-numeric \<^verbatim>\<open>n\<close> reaches
  \<^verbatim>\<open>panic(err)\<close>, a \<^verbatim>\<open>last\<close> that is no tag makes \<^verbatim>\<open>tags[i:]\<close> panic with
  \<open>i = -1\<close>, and an \<^verbatim>\<open>n\<close> beyond the capacity makes \<^verbatim>\<open>tags[:i]\<close> panic; nothing
  is written to the response.
\<close>

theorem C9_tags_list_panics:
  "handler exampleEnv
     (mkRequest ''GET'' ''/v2/lib/app/tags/list?last=a&n=abc&x=/tags/list'' []
        [(''last'', ''a''), (''n'', ''abc''), (''x'', ''/tags/list'')] []) tagsStore
     = (Panicked, \<lparr>store = tagsStore, out = []\<rparr>)
   \<and> handler exampleEnv
     (mkRequest ''GET'' ''/v2/lib/app/tags/list?n=2&last=/tags/list'' []
        [(''n'', ''2''), (''last'', ''/tags/list'')] []) tagsStore
     = (Panicked, \<lparr>store = tagsStore, out = []\<rparr>)
   \<and> handler exampleEnv
     (mkRequest ''GET'' ''/v2/lib/app/tags/list?last=a&n=100&x=/tags/list'' []
        [(''last'', ''a''), (''n'', ''100''), (''x'', ''/tags/list'')] []) tagsStore
     = (Panicked, \<lparr>store = tagsStore, out = []\<rparr>)"
proof (intro conjI)
  show "handler exampleEnv
     (mkRequest ''GET'' ''/v2/lib/app/tags/list?last=a&n=abc&x=/tags/list'' []
        [(''last'', ''a''), (''n'', ''abc''), (''x'', ''/tags/list'')] []) tagsStore
     = (Panicked, \<lparr>store = tagsStore, out = []\<rparr>)"
    by (simp add: eval_defs)
  show "handler exampleEnv
     (mkRequest ''GET'' ''/v2/lib/app/tags/list?n=2&last=/tags/list'' []
        [(''n'', ''2''), (''last'', ''/tags/list'')] []) tagsStore
     = (Panicked, \<lparr>store = tagsStore, out = []\<rparr>)"
    by (simp add: eval_defs)
  show "handler exampleEnv
     (mkRequest ''GET'' ''/v2/lib/app/tags/list?last=a&n=100&x=/tags/list'' []
        [(''last'', ''a''), (''n'', ''100''), (''x'', ''/tags/list'')] []) tagsStore
     = (Panicked, \<lparr>store = tagsStore, out = []\<rparr>)"
    by (simp add: eval_defs eval_nat_numeral)
qed

end
